theory Spec2Isabelle
  imports Main
begin

section \<open>JavaScript values\<close>

text \<open>
  The augmenter, the detector and the forwarder handle loosely typed data: parsed JSON
  bodies, configuration values typed \<^verbatim>\<open>any\<close> or \<^verbatim>\<open>unknown\<close>, and the frames of the
  provider's stream. \<open>jsval\<close> is the type of such data. Numbers are integers (token
  counts, limits, indices); strings are byte strings. An object is the list of its own
  properties in iteration order; a read takes the first entry of a key.
\<close>

datatype jsval =
    JUndefined
  | JNull
  | JBool bool
  | JNum int
  | JStr string
  | JArr "jsval list"
  | JObj "(string \<times> jsval) list"

datatype error = TypeError string | SyntaxError string | Error string

text \<open>Truthiness, as \<^verbatim>\<open>if (v)\<close>, \<^verbatim>\<open>!v\<close>, \<^verbatim>\<open>a || b\<close> and \<^verbatim>\<open>a && b\<close> test it.\<close>

fun truthy :: "jsval \<Rightarrow> bool" where
  "truthy JUndefined = False"
| "truthy JNull = False"
| "truthy (JBool b) = b"
| "truthy (JNum n) = (n \<noteq> 0)"
| "truthy (JStr s) = (s \<noteq> [])"
| "truthy (JArr xs) = True"
| "truthy (JObj kvs) = True"

fun nullish :: "jsval \<Rightarrow> bool" where
  "nullish JUndefined = True"
| "nullish JNull = True"
| "nullish v = False"

fun js_typeof :: "jsval \<Rightarrow> string" where
  "js_typeof JUndefined = ''undefined''"
| "js_typeof JNull = ''object''"
| "js_typeof (JBool b) = ''boolean''"
| "js_typeof (JNum n) = ''number''"
| "js_typeof (JStr s) = ''string''"
| "js_typeof (JArr xs) = ''object''"
| "js_typeof (JObj kvs) = ''object''"

fun isArray :: "jsval \<Rightarrow> bool" where
  "isArray (JArr xs) = True"
| "isArray v = False"

text \<open>\<^verbatim>\<open>a || b\<close> on values.\<close>

definition js_or :: "jsval \<Rightarrow> jsval \<Rightarrow> jsval" where
  "js_or a b = (if truthy a then a else b)"

subsection \<open>Decimal numerals and array indices\<close>

definition digit_char :: "nat \<Rightarrow> char" where
  "digit_char d = char_of (48 + d)"

fun show_nat :: "nat \<Rightarrow> string" where
  "show_nat n = (if n < 10 then [digit_char n] else show_nat (n div 10) @ [digit_char (n mod 10)])"

declare show_nat.simps [simp del]

definition show_int :: "int \<Rightarrow> string" where
  "show_int i = (if i < 0 then CHR ''-'' # show_nat (nat (- i)) else show_nat (nat i))"

definition is_digit :: "char \<Rightarrow> bool" where
  "is_digit c = (48 \<le> (of_char c :: nat) \<and> (of_char c :: nat) \<le> 57)"

definition digits_value :: "string \<Rightarrow> nat" where
  "digits_value ds = foldl (\<lambda>n c. 10 * n + ((of_char c :: nat) - 48)) 0 ds"

text \<open>A property key is an array index when it is the canonical numeral of a number.\<close>

definition array_index :: "string \<Rightarrow> nat option" where
  "array_index k =
     (if k \<noteq> [] \<and> list_all is_digit k \<and> (k = ''0'' \<or> hd k \<noteq> CHR ''0'')
      then Some (digits_value k) else None)"

subsection \<open>Conversion to string\<close>

text \<open>
  \<^verbatim>\<open>String(v)\<close>, a template literal and the conversion of a value to a property key.
  A number prints in decimal, as the integers below \<open>10\<^sup>2\<^sup>1\<close> do. An array joins its
  elements with commas, \<^verbatim>\<open>null\<close> and \<^verbatim>\<open>undefined\<close> elements as empty strings;
  \<open>js_join sep xs\<close> is \<^verbatim>\<open>xs.join(sep)\<close>. A plain object prints as
  \<^verbatim>\<open>[object Object]\<close> through the inherited \<^verbatim>\<open>toString\<close>; an object of parsed data with an own property \<^verbatim>\<open>toString\<close> shadows
  it with a value that cannot be called, the inherited \<^verbatim>\<open>valueOf\<close> returns the object
  itself, and the conversion raises a TypeError.
\<close>

fun js_String :: "jsval \<Rightarrow> error + string"
  and js_join :: "string \<Rightarrow> jsval list \<Rightarrow> error + string" where
  "js_String JUndefined = Inr ''undefined''"
| "js_String JNull = Inr ''null''"
| "js_String (JBool b) = Inr (if b then ''true'' else ''false'')"
| "js_String (JNum n) = Inr (show_int n)"
| "js_String (JStr s) = Inr s"
| "js_String (JArr xs) = js_join '','' xs"
| "js_String (JObj kvs) =
     (if map_of kvs ''toString'' \<noteq> None
      then Inl (TypeError ''Cannot convert object to primitive value'')
      else Inr ''[object Object]'')"
| "js_join sep [] = Inr []"
| "js_join sep (x # xs) =
     (case (if nullish x then Inr [] else js_String x) of
        Inl e \<Rightarrow> Inl e
      | Inr s \<Rightarrow>
          (if xs = [] then Inr s
           else (case js_join sep xs of Inl e \<Rightarrow> Inl e | Inr t \<Rightarrow> Inr (s @ sep @ t))))"

subsection \<open>Reading properties\<close>

text \<open>
  The own properties of a value: the entries of an object; the elements and the
  \<^verbatim>\<open>length\<close> of an array; the characters and the \<^verbatim>\<open>length\<close> of a string.
\<close>

fun own_property :: "jsval \<Rightarrow> string \<Rightarrow> jsval option" where
  "own_property (JObj kvs) k = map_of kvs k"
| "own_property (JArr xs) k =
     (if k = ''length'' then Some (JNum (int (length xs)))
      else (case array_index k of
              Some i \<Rightarrow> (if i < length xs then Some (xs ! i) else None)
            | None \<Rightarrow> None))"
| "own_property (JStr s) k =
     (if k = ''length'' then Some (JNum (int (length s)))
      else (case array_index k of
              Some i \<Rightarrow> (if i < length s then Some (JStr [s ! i]) else None)
            | None \<Rightarrow> None))"
| "own_property v k = None"

text \<open>
  \<open>js_get v k\<close> is the read \<^verbatim>\<open>v.k\<close> of a fixed property name on a value that is
  neither \<^verbatim>\<open>null\<close> nor \<^verbatim>\<open>undefined\<close>. The source reads the names \<^verbatim>\<open>type\<close>,
  \<^verbatim>\<open>text\<close>, \<^verbatim>\<open>source\<close>, \<^verbatim>\<open>media_type\<close>, \<^verbatim>\<open>data\<close>, \<^verbatim>\<open>url\<close>, \<^verbatim>\<open>id\<close>, \<^verbatim>\<open>name\<close>,
  \<^verbatim>\<open>input\<close>, \<^verbatim>\<open>tool_use_id\<close>, \<^verbatim>\<open>content\<close>, \<^verbatim>\<open>description\<close>, \<^verbatim>\<open>input_schema\<close>,
  \<^verbatim>\<open>model\<close>, \<^verbatim>\<open>choices\<close>, \<^verbatim>\<open>0\<close>, \<^verbatim>\<open>delta\<close>, \<^verbatim>\<open>usage\<close>, \<^verbatim>\<open>prompt_tokens\<close>,
  \<^verbatim>\<open>completion_tokens\<close>, \<^verbatim>\<open>finish_reason\<close>, \<^verbatim>\<open>message\<close> this way; no built-in
  prototype defines any of them, so the read finds an own property or \<^verbatim>\<open>undefined\<close>.
\<close>

definition js_get :: "jsval \<Rightarrow> string \<Rightarrow> jsval" where
  "js_get v k = (case own_property v k of Some x \<Rightarrow> x | None \<Rightarrow> JUndefined)"

text \<open>\<^verbatim>\<open>v.k\<close> raises a TypeError on \<^verbatim>\<open>null\<close> and \<^verbatim>\<open>undefined\<close>; \<^verbatim>\<open>v?.k\<close> gives \<^verbatim>\<open>undefined\<close> there.\<close>

definition js_member :: "jsval \<Rightarrow> string \<Rightarrow> error + jsval" where
  "js_member v k =
     (if nullish v then Inl (TypeError (''Cannot read properties of null or undefined: '' @ k))
      else Inr (js_get v k))"

definition js_opt :: "jsval \<Rightarrow> string \<Rightarrow> jsval" where
  "js_opt v k = (if nullish v then JUndefined else js_get v k)"

subsection \<open>Reads with a computed key: the prototype chain\<close>

text \<open>
  A read \<^verbatim>\<open>obj[key]\<close> with a key computed at run time finds the own property, or else
  the property the object inherits: every plain object inherits the members of
  \<^verbatim>\<open>Object.prototype\<close>, every array those of \<^verbatim>\<open>Array.prototype\<close> and then of
  \<^verbatim>\<open>Object.prototype\<close> (ECMAScript 2023 with its annex B). The inherited members are
  built-in functions, but for the accessor \<^verbatim>\<open>__proto__\<close>, which gives the prototype of
  the object read. A \<open>jsprop\<close> is what such a read can give.
\<close>

datatype jsprop =
    Data jsval
  | NativeFunction string
  | ObjectPrototype
  | ArrayPrototype

definition object_prototype_methods :: "string list" where
  "object_prototype_methods =
     [''__defineGetter__'', ''__defineSetter__'', ''hasOwnProperty'', ''__lookupGetter__'',
      ''__lookupSetter__'', ''isPrototypeOf'', ''propertyIsEnumerable'', ''toString'',
      ''valueOf'', ''toLocaleString'']"

definition array_prototype_methods :: "string list" where
  "array_prototype_methods =
     [''at'', ''concat'', ''copyWithin'', ''entries'', ''every'', ''fill'', ''filter'', ''find'',
      ''findIndex'', ''findLast'', ''findLastIndex'', ''flat'', ''flatMap'', ''forEach'',
      ''includes'', ''indexOf'', ''join'', ''keys'', ''lastIndexOf'', ''map'', ''pop'', ''push'',
      ''reduce'', ''reduceRight'', ''reverse'', ''shift'', ''slice'', ''some'', ''sort'',
      ''splice'', ''toLocaleString'', ''toReversed'', ''toSorted'', ''toSpliced'', ''toString'',
      ''unshift'', ''values'', ''with'']"

text \<open>The members of \<^verbatim>\<open>Object.prototype\<close>, read on an object whose prototype is \<open>p\<close>.\<close>

definition from_Object_prototype :: "jsprop \<Rightarrow> string \<Rightarrow> jsprop" where
  "from_Object_prototype p k =
     (if k = ''__proto__'' then p
      else if k = ''constructor'' then NativeFunction ''Object''
      else if k \<in> set object_prototype_methods then NativeFunction k
      else Data JUndefined)"

definition from_Array_prototype :: "jsprop \<Rightarrow> string \<Rightarrow> jsprop" where
  "from_Array_prototype p k =
     (if k = ''constructor'' then NativeFunction ''Array''
      else if k \<in> set array_prototype_methods then NativeFunction k
      else from_Object_prototype p k)"

text \<open>
  \<open>js_lookup v k\<close> is \<^verbatim>\<open>v[k]\<close> on a value of type \<^verbatim>\<open>object\<close> other than \<^verbatim>\<open>null\<close>, the
  only values the source reads with a computed key.
\<close>

fun js_lookup :: "jsprop \<Rightarrow> string \<Rightarrow> jsprop" where
  "js_lookup (Data (JObj kvs)) k =
     (case map_of kvs k of
        Some v \<Rightarrow> Data v
      | None \<Rightarrow> from_Object_prototype ObjectPrototype k)"
| "js_lookup (Data (JArr xs)) k =
     (case own_property (JArr xs) k of
        Some v \<Rightarrow> Data v
      | None \<Rightarrow> from_Array_prototype ArrayPrototype k)"
| "js_lookup ArrayPrototype k =
     (if k = ''length'' then Data (JNum 0) else from_Array_prototype ObjectPrototype k)"
| "js_lookup ObjectPrototype k = from_Object_prototype (Data JNull) k"
| "js_lookup (Data v) k = Data (js_get v k)"
| "js_lookup (NativeFunction f) k = Data JUndefined"

fun prop_typeof :: "jsprop \<Rightarrow> string" where
  "prop_typeof (Data v) = js_typeof v"
| "prop_typeof (NativeFunction f) = ''function''"
| "prop_typeof ObjectPrototype = ''object''"
| "prop_typeof ArrayPrototype = ''object''"

fun prop_truthy :: "jsprop \<Rightarrow> bool" where
  "prop_truthy (Data v) = truthy v"
| "prop_truthy p = True"

text \<open>
  \<^verbatim>\<open>String(p)\<close>: a built-in function prints as its native source text (in the form
  that V8 gives it), the prototype of the objects as an object, the prototype of the
  arrays as the empty array it is.
\<close>

fun prop_String :: "jsprop \<Rightarrow> error + string" where
  "prop_String (Data v) = js_String v"
| "prop_String (NativeFunction f) = Inr (''function '' @ f @ ''() { [native code] }'')"
| "prop_String ObjectPrototype = Inr ''[object Object]''"
| "prop_String ArrayPrototype = Inr []"

section \<open>The forwarder: finish reasons\<close>

text \<open>
  \<^verbatim>\<open>mapFinishReason(reason)\<close> reads a table object with the reason as the key and
  falls back to \<^verbatim>\<open>end_turn\<close> when the read gives a falsy value:
  \<^verbatim>\<open>return mapping[reason] || 'end_turn'\<close>. The callers pass the frame's or the
  choice's \<^verbatim>\<open>finish_reason\<close>, whatever it is, \<^verbatim>\<open>undefined\<close> when it is absent.
\<close>

definition finish_reason_mapping :: "(string \<times> jsval) list" where
  "finish_reason_mapping =
     [(''stop'', JStr ''end_turn''),
      (''length'', JStr ''max_tokens''),
      (''tool_calls'', JStr ''tool_use''),
      (''content_filter'', JStr ''stop_sequence''),
      (''function_call'', JStr ''tool_use'')]"

definition mapFinishReason :: "jsval \<Rightarrow> error + jsprop" where
  "mapFinishReason reason =
     (case js_String reason of
        Inl e \<Rightarrow> Inl e
      | Inr key \<Rightarrow>
          (let m = js_lookup (Data (JObj finish_reason_mapping)) key
           in Inr (if prop_truthy m then m else Data (JStr ''end_turn''))))"

section \<open>The forwarder: the streaming transcoder\<close>

text \<open>
  \<^verbatim>\<open>transformOpenRouterToAnthropic\<close> reads the provider's stream chunk by chunk and
  enqueues the caller's events. \<^verbatim>\<open>sendEvent(event, data)\<close> enqueues the bytes of
  \<^verbatim>\<open>event: <event>\ndata: <JSON of data>\n\n\<close>; an \<open>sse_event\<close> is one such call, with
  the parts of \<^verbatim>\<open>data\<close> that vary:
  \<^item> \<open>MessageStart id model\<close>: \<^verbatim>\<open>message_start\<close>, a message with that id and model, role
    \<^verbatim>\<open>assistant\<close>, empty content, null stop reason and usage 0/0;
  \<^item> \<open>ContentBlockStart index\<close>: \<^verbatim>\<open>content_block_start\<close> of an empty text block;
  \<^item> \<open>ContentBlockDelta index text\<close>: \<^verbatim>\<open>content_block_delta\<close> with a \<^verbatim>\<open>text_delta\<close>;
  \<^item> \<open>ContentBlockStop index\<close>: \<^verbatim>\<open>content_block_stop\<close>;
  \<^item> \<open>MessageDelta stop_reason output_tokens\<close>: \<^verbatim>\<open>message_delta\<close> with a null stop sequence;
  \<^item> \<open>MessageStop\<close>: \<^verbatim>\<open>message_stop\<close>.
\<close>

datatype sse_event =
    MessageStart string jsval
  | ContentBlockStart nat
  | ContentBlockDelta nat jsval
  | ContentBlockStop nat
  | MessageDelta jsprop jsval
  | MessageStop

fun event_name :: "sse_event \<Rightarrow> string" where
  "event_name (MessageStart i m) = ''message_start''"
| "event_name (ContentBlockStart i) = ''content_block_start''"
| "event_name (ContentBlockDelta i t) = ''content_block_delta''"
| "event_name (ContentBlockStop i) = ''content_block_stop''"
| "event_name (MessageDelta r n) = ''message_delta''"
| "event_name MessageStop = ''message_stop''"

text \<open>
  The variables of the closure: the carry-over buffer, the running token counts and the
  one-shot flag; \<open>emitted\<close> is the queue of the output stream, in the order of the calls.
\<close>

record transcoder =
  buffer :: string
  inputTokens :: jsval
  outputTokens :: jsval
  sentStart :: bool
  emitted :: "sse_event list"

definition initial_transcoder :: transcoder where
  "initial_transcoder =
     \<lparr>buffer = [], inputTokens = JNum 0, outputTokens = JNum 0, sentStart = False, emitted = []\<rparr>"

definition sendEvent :: "sse_event \<Rightarrow> transcoder \<Rightarrow> transcoder" where
  "sendEvent e st = st\<lparr>emitted := emitted st @ [e]\<rparr>"

text \<open>The body of the inner \<^verbatim>\<open>try\<close>, after \<^verbatim>\<open>JSON.parse\<close> has given \<open>chunk\<close>, in four steps.\<close>

definition start_events :: "string \<Rightarrow> jsval \<Rightarrow> transcoder \<Rightarrow> transcoder" where
  "start_events messageId chunk st =
     (if \<not> sentStart st
      then (sendEvent (ContentBlockStart 0)
              (sendEvent (MessageStart messageId (js_or (js_get chunk ''model'') (JStr ''unknown'')))
                 st))\<lparr>sentStart := True\<rparr>
      else st)"

definition delta_event :: "jsval \<Rightarrow> transcoder \<Rightarrow> transcoder" where
  "delta_event chunk st =
     (let delta = js_opt (js_opt (js_get chunk ''choices'') ''0'') ''delta''
      in if truthy (js_opt delta ''content'')
         then sendEvent (ContentBlockDelta 0 (js_get delta ''content'')) st
         else st)"

definition update_usage :: "jsval \<Rightarrow> transcoder \<Rightarrow> transcoder" where
  "update_usage chunk st =
     (if truthy (js_get chunk ''usage'')
      then st\<lparr>inputTokens := js_or (js_get (js_get chunk ''usage'') ''prompt_tokens'') (inputTokens st),
              outputTokens :=
                js_or (js_get (js_get chunk ''usage'') ''completion_tokens'') (outputTokens st)\<rparr>
      else st)"

text \<open>
  The payload of \<^verbatim>\<open>message_delta\<close> is built after \<^verbatim>\<open>content_block_stop\<close> has been
  sent: when \<^verbatim>\<open>mapFinishReason\<close> raises there, the \<^verbatim>\<open>catch\<close> ends the frame with that
  one event sent.
\<close>

definition finish_events :: "jsval \<Rightarrow> transcoder \<Rightarrow> transcoder" where
  "finish_events chunk st =
     (let reason = js_opt (js_opt (js_get chunk ''choices'') ''0'') ''finish_reason''
      in if truthy reason
         then (let st1 = sendEvent (ContentBlockStop 0) st
               in case mapFinishReason reason of
                    Inl e \<Rightarrow> st1
                  | Inr stop_reason \<Rightarrow>
                      sendEvent MessageStop
                        (sendEvent (MessageDelta stop_reason (outputTokens st1)) st1))
         else st)"

text \<open>
  A frame that is \<^verbatim>\<open>null\<close> raises at its first read (\<^verbatim>\<open>chunk.model\<close> or
  \<^verbatim>\<open>chunk.choices\<close>), before anything is sent, and the \<^verbatim>\<open>catch\<close> skips it.
\<close>

definition process_frame :: "string \<Rightarrow> jsval \<Rightarrow> transcoder \<Rightarrow> transcoder" where
  "process_frame messageId chunk st =
     (if nullish chunk then st
      else finish_events chunk (update_usage chunk (delta_event chunk (start_events messageId chunk st))))"

subsection \<open>Lines and chunks\<close>

definition newline :: char where
  "newline = CHR 0x0A"

text \<open>\<^verbatim>\<open>s.split(c)\<close>: the pieces between the separators, one more than there are separators.\<close>

fun split_on :: "char \<Rightarrow> string \<Rightarrow> string list" where
  "split_on c [] = [[]]"
| "split_on c (x # xs) =
     (if x = c then [] # split_on c xs
      else (case split_on c xs of [] \<Rightarrow> [[x]] | l # ls \<Rightarrow> (x # l) # ls))"

text \<open>\<^verbatim>\<open>trim\<close>, on the white space of ASCII: tab, line feed, vertical tab, form feed, carriage return, space.\<close>

definition is_space :: "char \<Rightarrow> bool" where
  "is_space c = ((of_char c :: nat) \<in> {9, 10, 11, 12, 13, 32})"

definition js_trim :: "string \<Rightarrow> string" where
  "js_trim s = rev (dropWhile is_space (rev (dropWhile is_space s)))"

text \<open>
  One line of the stream. \<open>parse\<close> is \<^verbatim>\<open>JSON.parse\<close>: \<open>None\<close> where it raises a
  SyntaxError, which the \<^verbatim>\<open>catch\<close> swallows.
\<close>

definition process_line ::
  "(string \<Rightarrow> jsval option) \<Rightarrow> string \<Rightarrow> transcoder \<Rightarrow> string \<Rightarrow> transcoder" where
  "process_line parse messageId st line =
     (if take 6 line \<noteq> ''data: '' then st
      else (let jsonStr = js_trim (drop 6 line)
            in if jsonStr = ''[DONE]'' then st
               else (case parse jsonStr of
                       None \<Rightarrow> st
                     | Some chunk \<Rightarrow> process_frame messageId chunk st)))"

text \<open>
  One chunk read from the source: its text (the bytes, which the streaming decoder
  passes on as they are when they are valid UTF-8) is appended to the buffer and split
  at the line feeds; the last piece is the new buffer, the others are processed in order.
\<close>

definition process_chunk ::
  "(string \<Rightarrow> jsval option) \<Rightarrow> string \<Rightarrow> transcoder \<Rightarrow> string \<Rightarrow> transcoder" where
  "process_chunk parse messageId st chunk_text =
     (let lines = split_on newline (buffer st @ chunk_text)
      in foldl (process_line parse messageId) (st\<lparr>buffer := last lines\<rparr>) (butlast lines))"

definition transcode ::
  "(string \<Rightarrow> jsval option) \<Rightarrow> string \<Rightarrow> string list \<Rightarrow> transcoder" where
  "transcode parse messageId chunks =
     foldl (process_chunk parse messageId) initial_transcoder chunks"

text \<open>
  How the provider's stream ends: the source closes, or a read raises an error.
  \<^verbatim>\<open>controller.error\<close> hands the error to the consumer of the output at once and
  discards the events that are still queued; so a failure names, with the error, the
  number of events that the consumer had taken by then.
\<close>

datatype source_end = SourceClosed | SourceFailed error nat

text \<open>
  What the consumer of the output stream receives: when the source closes, every event
  enqueued while the chunks were read, then the close; when a read fails after the
  chunks, the events it had taken, then the error. What is left in the buffer when the
  source ends is never processed.
\<close>

definition transformOpenRouterToAnthropic ::
  "(string \<Rightarrow> jsval option) \<Rightarrow> string \<Rightarrow> string list \<Rightarrow> source_end
     \<Rightarrow> sse_event list \<times> error option" where
  "transformOpenRouterToAnthropic parse messageId chunks ending =
     (case ending of
        SourceClosed \<Rightarrow> (emitted (transcode parse messageId chunks), None)
      | SourceFailed e taken \<Rightarrow> (take taken (emitted (transcode parse messageId chunks)), Some e))"

subsection \<open>The frames of a stream\<close>

text \<open>
  The complete lines of a stream, and the frames they carry: the lines with the data
  prefix, other than the sentinel, whose text parses to a value other than
  \<^verbatim>\<open>null\<close>.
\<close>

fun stream_lines :: "string \<Rightarrow> string list \<Rightarrow> string list" where
  "stream_lines buf [] = []"
| "stream_lines buf (c # cs) =
     butlast (split_on newline (buf @ c)) @ stream_lines (last (split_on newline (buf @ c))) cs"

definition line_frame :: "(string \<Rightarrow> jsval option) \<Rightarrow> string \<Rightarrow> jsval option" where
  "line_frame parse line =
     (if take 6 line = ''data: '' \<and> js_trim (drop 6 line) \<noteq> ''[DONE]''
      then (case parse (js_trim (drop 6 line)) of
              None \<Rightarrow> None
            | Some chunk \<Rightarrow> (if nullish chunk then None else Some chunk))
      else None)"

definition stream_frames :: "(string \<Rightarrow> jsval option) \<Rightarrow> string list \<Rightarrow> jsval list" where
  "stream_frames parse chunks = List.map_filter (line_frame parse) (stream_lines [] chunks)"

text \<open>What a frame carries: its finish reason, its text, its model.\<close>

definition frame_finish :: "jsval \<Rightarrow> jsval" where
  "frame_finish chunk = js_opt (js_opt (js_get chunk ''choices'') ''0'') ''finish_reason''"

definition frame_text :: "jsval \<Rightarrow> jsval" where
  "frame_text chunk = js_opt (js_opt (js_opt (js_get chunk ''choices'') ''0'') ''delta'') ''content''"

definition frame_model :: "jsval \<Rightarrow> jsval" where
  "frame_model chunk = js_or (js_get chunk ''model'') (JStr ''unknown'')"

section \<open>Configuration and requests\<close>

text \<open>
  The interfaces of \<^verbatim>\<open>types.ts\<close>. An optional string is an option; the code tests it
  for truthiness, so the empty string counts as not configured. The instructions and
  the extra context are checked at run time (\<^verbatim>\<open>Array.isArray\<close>, \<^verbatim>\<open>typeof\<close>), so they
  are values of any shape, \<^verbatim>\<open>undefined\<close> when absent.
\<close>

record detection_spec =
  header_field :: "string option"
  header_value :: "string option"
  metadata_field :: "string option"
  metadata_value :: "string option"

record AugmentConfig =
  enabled :: bool
  modified_system_prompt :: "string option"
  additional_instructions :: jsval
  extra_context :: jsval
  openrouter_endpoint :: string
  openrouter_auth :: string
  detection :: detection_spec

fun configured :: "string option \<Rightarrow> bool" where
  "configured None = False"
| "configured (Some s) = (s \<noteq> [])"

text \<open>
  \<^verbatim>\<open>MessageParam\<close> and \<^verbatim>\<open>OpenRouterMessage\<close> have the same two fields; the role is
  passed through as the string it is, the content is any value.
\<close>

record MessageParam =
  role :: string
  content :: jsval

type_synonym OpenRouterMessage = MessageParam

text \<open>
  The body of an inbound request; \<open>other_fields\<close> are the properties of its index
  signature. The code tests \<^verbatim>\<open>system\<close> at run time (\<^verbatim>\<open>Array.isArray\<close>) and reads
  \<^verbatim>\<open>type\<close> and \<^verbatim>\<open>text\<close> of its segments, so it is a value of any shape, \<^verbatim>\<open>undefined\<close>
  when absent.
\<close>

record RequestBody =
  model :: string
  messages :: "MessageParam list"
  system :: jsval
  tools :: "jsval list option"
  stream :: "bool option"
  max_tokens :: "int option"
  metadata :: jsval
  other_fields :: "(string \<times> jsval) list"

text \<open>The headers are the entries of the header object, in iteration order.\<close>

record AugmentRequest =
  body :: RequestBody
  headers :: "(string \<times> string) list"

record AugmentResult =
  success :: bool
  augmented :: bool
  error :: "string option"
  errorCode :: "nat option"

record OpenRouterRequest =
  or_model :: string
  or_messages :: "OpenRouterMessage list"
  or_max_tokens :: "int option"
  or_stream :: "bool option"
  or_tools :: "jsval list option"
  or_fields :: "(string \<times> jsval) list"

text \<open>
  What \<^verbatim>\<open>augmentRequest\<close> returns. On a failed validation the body is the empty
  object \<^verbatim>\<open>{}\<close>, which has none of the fields of a request: \<open>None\<close>.
\<close>

record augment_output =
  augmentedBody :: "OpenRouterRequest option"
  result :: AugmentResult

section \<open>The detector\<close>

text \<open>\<^verbatim>\<open>toLowerCase\<close> on ASCII, the alphabet of header names.\<close>

definition lower_char :: "char \<Rightarrow> char" where
  "lower_char c =
     (if 65 \<le> (of_char c :: nat) \<and> (of_char c :: nat) \<le> 90
      then char_of ((of_char c :: nat) + 32) else c)"

definition toLowerCase :: "string \<Rightarrow> string" where
  "toLowerCase s = map lower_char s"

text \<open>The loop of \<^verbatim>\<open>checkHeader\<close> over the entries: the first header of that name decides.\<close>

fun scan_headers :: "string \<Rightarrow> string option \<Rightarrow> (string \<times> string) list \<Rightarrow> bool" where
  "scan_headers headerName expected [] = False"
| "scan_headers headerName expected ((key, v) # rest) =
     (if toLowerCase key = headerName
      then (if configured expected then Some v = expected else True)
      else scan_headers headerName expected rest)"

definition checkHeader :: "AugmentRequest \<Rightarrow> detection_spec \<Rightarrow> bool" where
  "checkHeader req det =
     (case header_field det of
        None \<Rightarrow> False
      | Some field \<Rightarrow>
          (if field = [] then False
           else scan_headers (toLowerCase field) (header_value det) (headers req)))"

text \<open>
  \<^verbatim>\<open>getNestedValue\<close>: the path is split at the dots and the keys are followed one by
  one. Each step reads \<^verbatim>\<open>current[key]\<close> with the key computed from the path.
\<close>

fun descend :: "jsprop \<Rightarrow> string list \<Rightarrow> jsprop" where
  "descend current [] = current"
| "descend current (key # keys) =
     (if current = Data JNull \<or> current = Data JUndefined then Data JUndefined
      else if prop_typeof current \<noteq> ''object'' then Data JUndefined
      else descend (js_lookup current key) keys)"

definition getNestedValue :: "jsval \<Rightarrow> string \<Rightarrow> jsprop" where
  "getNestedValue obj path = descend (Data obj) (split_on CHR ''.'' path)"

text \<open>
  \<^verbatim>\<open>checkMetadata\<close>. The guard \<^verbatim>\<open>!metadata || typeof metadata !== 'object'\<close> is written
  as the negation of a conjunction. \<^verbatim>\<open>String(fieldValue)\<close> can raise, so \<^verbatim>\<open>checkMetadata\<close> can.
\<close>

definition checkMetadata :: "AugmentRequest \<Rightarrow> detection_spec \<Rightarrow> error + bool" where
  "checkMetadata req det =
     (case metadata_field det of
        None \<Rightarrow> Inr False
      | Some field \<Rightarrow>
          (if field = [] then Inr False
           else if \<not> (truthy (metadata (body req)) \<and> js_typeof (metadata (body req)) = ''object'')
           then Inr False
           else (let fieldValue = getNestedValue (metadata (body req)) field
                 in if fieldValue = Data JUndefined then Inr False
                    else if configured (metadata_value det)
                    then (case prop_String fieldValue of
                            Inl e \<Rightarrow> Inl e
                          | Inr s \<Rightarrow> Inr (Some s = metadata_value det))
                    else Inr True)))"

definition isClaudeCodeRequest :: "AugmentConfig \<Rightarrow> AugmentRequest \<Rightarrow> error + bool" where
  "isClaudeCodeRequest cfg req =
     (if \<not> enabled cfg then Inr False
      else if checkHeader req (detection cfg) then Inr True
      else (case checkMetadata req (detection cfg) of
              Inl e \<Rightarrow> Inl e
            | Inr m \<Rightarrow> (if m then Inr True else Inr False)))"

section \<open>The augmenter\<close>

definition failure_result :: "string \<Rightarrow> AugmentResult" where
  "failure_result msg = \<lparr>success = False, augmented = False, error = Some msg, errorCode = Some 400\<rparr>"

definition validateConfig :: "AugmentConfig \<Rightarrow> AugmentResult" where
  "validateConfig cfg =
     (if openrouter_endpoint cfg = []
      then failure_result ''Missing required parameter: openrouter_endpoint''
      else if openrouter_auth cfg = []
      then failure_result ''Missing required parameter: openrouter_auth''
      else if truthy (additional_instructions cfg) \<and> \<not> isArray (additional_instructions cfg)
      then failure_result ''Invalid parameter: additional_instructions must be an array''
      else if truthy (extra_context cfg) \<and> js_typeof (extra_context cfg) \<noteq> ''object''
      then failure_result ''Invalid parameter: extra_context must be an object''
      else \<lparr>success = True, augmented = False, error = None, errorCode = None\<rparr>)"

text \<open>Strings joined by a separator.\<close>

fun join_with :: "string \<Rightarrow> string list \<Rightarrow> string" where
  "join_with sep [] = []"
| "join_with sep [p] = p"
| "join_with sep (p # q # ps) = p @ sep @ join_with sep (q # ps)"

text \<open>
  The loop of \<^verbatim>\<open>buildSystemPrompt\<close> over the inbound segments. It reads \<^verbatim>\<open>item.type\<close>
  of every segment, which raises on a segment that is \<^verbatim>\<open>null\<close> or \<^verbatim>\<open>undefined\<close>, and
  pushes the truthy \<^verbatim>\<open>text\<close> of a segment of type \<^verbatim>\<open>text\<close> unless a replacement
  prompt is configured.
\<close>

fun collect_parts :: "bool \<Rightarrow> jsval list \<Rightarrow> jsval list \<Rightarrow> error + jsval list" where
  "collect_parts replaced [] parts = Inr parts"
| "collect_parts replaced (item # rest) parts =
     (if nullish item then Inl (TypeError ''Cannot read properties of null or undefined: type'')
      else if js_get item ''type'' = JStr ''text'' \<and> truthy (js_get item ''text'')
      then (if \<not> replaced then collect_parts replaced rest (parts @ [js_get item ''text''])
            else collect_parts replaced rest parts)
      else collect_parts replaced rest parts)"

text \<open>
  \<^verbatim>\<open>buildSystemPrompt\<close>: the parts are the replacement prompt when it is configured,
  then what the loop pushes when the inbound \<^verbatim>\<open>system\<close> is an array (any other value
  is passed over); they are joined by a blank line.
\<close>

definition buildSystemPrompt :: "AugmentConfig \<Rightarrow> jsval \<Rightarrow> error + string" where
  "buildSystemPrompt cfg originalSystem =
     (case collect_parts (configured (modified_system_prompt cfg))
             (case originalSystem of JArr items \<Rightarrow> items | _ \<Rightarrow> [])
             (case modified_system_prompt cfg of
                None \<Rightarrow> []
              | Some p \<Rightarrow> (if p \<noteq> [] then [JStr p] else [])) of
        Inl e \<Rightarrow> Inl e
      | Inr parts \<Rightarrow> js_join [newline, newline] parts)"

text \<open>
  One turn of the loop of \<^verbatim>\<open>convertContent\<close>: the blocks it pushes for one inbound
  block. Reading \<^verbatim>\<open>block.type\<close> raises on a block that is \<^verbatim>\<open>null\<close> or \<^verbatim>\<open>undefined\<close>;
  the template literal of the data URI converts the media type and the data to strings.
\<close>

definition convertBlock :: "jsval \<Rightarrow> error + jsval list" where
  "convertBlock block =
     (if nullish block then Inl (TypeError ''Cannot read properties of null or undefined: type'')
      else if js_get block ''type'' = JStr ''text''
      then Inr [JObj [(''type'', JStr ''text''), (''text'', js_get block ''text'')]]
      else if js_get block ''type'' = JStr ''image''
      then (if js_opt (js_get block ''source'') ''type'' = JStr ''base64''
            then (case js_String (js_get (js_get block ''source'') ''media_type'') of
                    Inl e \<Rightarrow> Inl e
                  | Inr media_type \<Rightarrow>
                      (case js_String (js_get (js_get block ''source'') ''data'') of
                         Inl e \<Rightarrow> Inl e
                       | Inr payload \<Rightarrow>
                           Inr [JObj [(''type'', JStr ''image_url''),
                                      (''image_url'',
                                       JObj [(''url'', JStr (''data:'' @ media_type @ '';base64,'' @ payload))])]]))
            else if js_opt (js_get block ''source'') ''type'' = JStr ''url''
            then Inr [JObj [(''type'', JStr ''image_url''),
                            (''image_url'', JObj [(''url'', js_get (js_get block ''source'') ''url'')])]]
            else Inr [])
      else if js_get block ''type'' = JStr ''tool_use''
      then Inr [JObj [(''type'', JStr ''tool_use''), (''id'', js_get block ''id''),
                      (''name'', js_get block ''name''), (''input'', js_get block ''input'')]]
      else if js_get block ''type'' = JStr ''tool_result''
      then Inr [JObj [(''type'', JStr ''tool_result''), (''tool_use_id'', js_get block ''tool_use_id''),
                      (''content'', js_get block ''content'')]]
      else Inr [block])"

fun convertBlocks :: "jsval list \<Rightarrow> jsval list \<Rightarrow> error + jsval list" where
  "convertBlocks [] converted = Inr converted"
| "convertBlocks (block # rest) converted =
     (case convertBlock block of
        Inl e \<Rightarrow> Inl e
      | Inr pushed \<Rightarrow> convertBlocks rest (converted @ pushed))"

definition convertContent :: "jsval \<Rightarrow> error + jsval" where
  "convertContent c =
     (case c of
        JStr s \<Rightarrow> Inr (JStr s)
      | JArr blocks \<Rightarrow>
          (case convertBlocks blocks [] of
             Inl e \<Rightarrow> Inl e
           | Inr converted \<Rightarrow>
               Inr (if length converted = 1 \<and> js_get (converted ! 0) ''type'' = JStr ''text''
                    then js_get (converted ! 0) ''text''
                    else JArr converted))
      | _ \<Rightarrow> (case js_String c of Inl e \<Rightarrow> Inl e | Inr s \<Rightarrow> Inr (JStr s)))"

fun convertMessages :: "MessageParam list \<Rightarrow> error + OpenRouterMessage list" where
  "convertMessages [] = Inr []"
| "convertMessages (msg # rest) =
     (if role msg = ''system'' then convertMessages rest
      else (case convertContent (content msg) of
              Inl e \<Rightarrow> Inl e
            | Inr c \<Rightarrow>
                (case convertMessages rest of
                   Inl e \<Rightarrow> Inl e
                 | Inr converted \<Rightarrow> Inr (\<lparr>role = role msg, content = c\<rparr> # converted))))"

definition convertTool :: "jsval \<Rightarrow> error + jsval" where
  "convertTool tool =
     (if nullish tool then Inl (TypeError ''Cannot read properties of null or undefined: type'')
      else if js_get tool ''type'' = JStr ''function'' then Inr tool
      else Inr (JObj [(''type'', JStr ''function''),
                      (''function'',
                       JObj [(''name'', js_get tool ''name''),
                             (''description'', js_get tool ''description''),
                             (''parameters'', js_get tool ''input_schema'')])]))"

fun convertTools :: "jsval list \<Rightarrow> error + jsval list" where
  "convertTools [] = Inr []"
| "convertTools (tool # rest) =
     (case convertTool tool of
        Inl e \<Rightarrow> Inl e
      | Inr t \<Rightarrow> (case convertTools rest of Inl e \<Rightarrow> Inl e | Inr ts \<Rightarrow> Inr (t # ts)))"

definition additionalFields :: "string list" where
  "additionalFields =
     [''temperature'', ''top_p'', ''top_k'', ''frequency_penalty'', ''presence_penalty'', ''stop'']"

definition system_message :: "jsval \<Rightarrow> OpenRouterMessage" where
  "system_message c = \<lparr>role = ''system'', content = c\<rparr>"

text \<open>
  The three groups of system messages that \<^verbatim>\<open>augmentRequest\<close> pushes before the
  converted messages. \<open>stringify\<close> is \<^verbatim>\<open>JSON.stringify(_, null, 2)\<close>. The instructions
  are looped over when they are truthy and not empty; a validated configuration has an
  array there.
\<close>

definition prompt_messages :: "string \<Rightarrow> OpenRouterMessage list" where
  "prompt_messages systemPrompt =
     (if systemPrompt \<noteq> [] then [system_message (JStr systemPrompt)] else [])"

definition instruction_messages :: "AugmentConfig \<Rightarrow> OpenRouterMessage list" where
  "instruction_messages cfg =
     (case additional_instructions cfg of
        JArr instructions \<Rightarrow> map system_message instructions
      | _ \<Rightarrow> [])"

definition context_messages :: "(jsval \<Rightarrow> string) \<Rightarrow> AugmentConfig \<Rightarrow> OpenRouterMessage list" where
  "context_messages stringify cfg =
     (if truthy (extra_context cfg)
      then [system_message
              (JStr (''<context>'' @ [newline] @ stringify (extra_context cfg) @ [newline]
                     @ ''</context>''))]
      else [])"

definition copied_fields :: "RequestBody \<Rightarrow> (string \<times> jsval) list" where
  "copied_fields originalBody =
     concat (map (\<lambda>field.
       (case map_of (other_fields originalBody) field of
          None \<Rightarrow> []
        | Some v \<Rightarrow> (if v \<noteq> JUndefined then [(field, v)] else []))) additionalFields)"

definition augmentRequest ::
  "(jsval \<Rightarrow> string) \<Rightarrow> AugmentConfig \<Rightarrow> AugmentRequest \<Rightarrow> error + augment_output" where
  "augmentRequest stringify cfg req =
     (if \<not> success (validateConfig cfg)
      then Inr \<lparr>augmentedBody = None, result = validateConfig cfg\<rparr>
      else
        (case buildSystemPrompt cfg (system (body req)) of
           Inl e \<Rightarrow> Inl e
         | Inr systemPrompt \<Rightarrow>
        (case convertMessages (messages (body req)) of
           Inl e \<Rightarrow> Inl e
         | Inr convertedMessages \<Rightarrow>
             (case (case tools (body req) of
                      None \<Rightarrow> Inr None
                    | Some ts \<Rightarrow>
                        (if ts = [] then Inr None
                         else (case convertTools ts of Inl e \<Rightarrow> Inl e | Inr cs \<Rightarrow> Inr (Some cs)))) of
                Inl e \<Rightarrow> Inl e
              | Inr convertedTools \<Rightarrow>
                  Inr \<lparr>augmentedBody =
                         Some \<lparr>or_model = model (body req),
                               or_messages =
                                 prompt_messages systemPrompt @ instruction_messages cfg
                                 @ context_messages stringify cfg @ convertedMessages,
                               or_max_tokens = max_tokens (body req),
                               or_stream = stream (body req),
                               or_tools = convertedTools,
                               or_fields = copied_fields (body req)\<rparr>,
                       result = \<lparr>success = True, augmented = True, error = None, errorCode = None\<rparr>\<rparr>))))"

section \<open>The forwarder: the call to the provider\<close>

text \<open>
  The transport is \<^verbatim>\<open>fetch\<close>: given the call, it rejects with an exception or resolves
  with a response. Of an exception the code reads \<^verbatim>\<open>code\<close>, \<^verbatim>\<open>name\<close> and \<^verbatim>\<open>message\<close>;
  of a response \<^verbatim>\<open>ok\<close>, \<^verbatim>\<open>status\<close>, \<^verbatim>\<open>statusText\<close>, the result of \<^verbatim>\<open>json()\<close> (\<open>None\<close>
  where it raises) and the body stream (\<open>None\<close> when the body is null): its chunks and
  how it ends.
\<close>

record js_exception =
  exn_name :: string
  exn_code :: "string option"
  exn_message :: string

record http_response =
  ok :: bool
  status :: nat
  statusText :: string
  json_body :: "jsval option"
  stream_body :: "(string list \<times> source_end) option"

datatype fetch_outcome = Rejected js_exception | Resolved http_response

record fetch_call =
  endpoint :: string
  call_headers :: "(string \<times> string) list"
  call_body :: "OpenRouterRequest option"

record ForwardResult =
  fwd_success :: bool
  fwd_response :: "http_response option"
  fwd_error :: jsval
  fwd_errorCode :: "nat option"

definition fetch_request :: "AugmentConfig \<Rightarrow> OpenRouterRequest option \<Rightarrow> fetch_call" where
  "fetch_request cfg augmented_body =
     \<lparr>endpoint = openrouter_endpoint cfg,
      call_headers =
        [(''Content-Type'', ''application/json''),
         (''Authorization'', ''Bearer '' @ openrouter_auth cfg),
         (''HTTP-Referer'', ''https://claude-code-augment.local''),
         (''X-Title'', ''Claude Code Augment'')],
      call_body = augmented_body\<rparr>"

text \<open>The \<^verbatim>\<open>catch\<close> of \<^verbatim>\<open>forward\<close>.\<close>

definition forward_catch :: "js_exception \<Rightarrow> ForwardResult" where
  "forward_catch e =
     (if exn_code e = Some ''ECONNREFUSED'' \<or> exn_code e = Some ''ENOTFOUND''
         \<or> exn_code e = Some ''ETIMEDOUT'' \<or> exn_name e = ''TypeError''
      then \<lparr>fwd_success = False, fwd_response = None,
            fwd_error = JStr (''Network error: Unable to reach OpenRouter endpoint - '' @ exn_message e),
            fwd_errorCode = Some 502\<rparr>
      else \<lparr>fwd_success = False, fwd_response = None,
            fwd_error = JStr (''Forward error: '' @ exn_message e),
            fwd_errorCode = Some 500\<rparr>)"

definition safeReadError :: "http_response \<Rightarrow> jsval" where
  "safeReadError response =
     (case json_body response of
        Some v \<Rightarrow> v
      | None \<Rightarrow>
          JObj [(''message'',
                 JStr (''HTTP '' @ show_nat (status response) @ '': '' @ statusText response))])"

text \<open>
  \<^verbatim>\<open>forward\<close>. Inside its \<^verbatim>\<open>try\<close>, reading \<^verbatim>\<open>errorBody.message\<close> of an error body
  that is \<^verbatim>\<open>null\<close> raises a TypeError, which the \<^verbatim>\<open>catch\<close> handles as any other.
\<close>

definition forward ::
  "(fetch_call \<Rightarrow> fetch_outcome) \<Rightarrow> AugmentConfig \<Rightarrow> OpenRouterRequest option \<Rightarrow> bool
     \<Rightarrow> ForwardResult" where
  "forward fetch cfg augmented_body isStreaming =
     (case fetch (fetch_request cfg augmented_body) of
        Rejected e \<Rightarrow> forward_catch e
      | Resolved response \<Rightarrow>
          (if \<not> ok response
           then (if nullish (safeReadError response)
                 then forward_catch
                        \<lparr>exn_name = ''TypeError'', exn_code = None,
                         exn_message = ''Cannot read properties of null (reading message)''\<rparr>
                 else \<lparr>fwd_success = False, fwd_response = None,
                       fwd_error =
                         js_or (js_get (safeReadError response) ''message'')
                           (JStr (''OpenRouter error: '' @ show_nat (status response))),
                       fwd_errorCode = Some (status response)\<rparr>)
           else \<lparr>fwd_success = True, fwd_response = Some response, fwd_error = JUndefined,
                 fwd_errorCode = None\<rparr>))"

subsection \<open>The responses\<close>

record anthropic_message =
  msg_id :: jsval
  msg_text :: jsval
  msg_model :: jsval
  stop_reason :: jsprop
  input_tokens :: jsval
  output_tokens :: jsval

text \<open>
  \<^verbatim>\<open>convertOpenRouterResponseToAnthropic\<close>: a message of type \<^verbatim>\<open>message\<close> and role
  \<^verbatim>\<open>assistant\<close> with one text block and a null stop sequence. \<open>messageId\<close> is
  \<^verbatim>\<open>msg_\<close> followed by the time of the call.
\<close>

definition convertOpenRouterResponseToAnthropic :: "string \<Rightarrow> jsval \<Rightarrow> error + anthropic_message" where
  "convertOpenRouterResponseToAnthropic messageId d =
     (if nullish d then Inl (TypeError ''Cannot read properties of null or undefined: choices'')
      else (let choice = js_opt (js_get d ''choices'') ''0''
            in case mapFinishReason (js_opt choice ''finish_reason'') of
                 Inl e \<Rightarrow> Inl e
               | Inr reason \<Rightarrow>
                   Inr \<lparr>msg_id = js_or (js_get d ''id'') (JStr messageId),
                        msg_text = js_or (js_opt (js_opt choice ''message'') ''content'') (JStr []),
                        msg_model = js_or (js_get d ''model'') (JStr ''unknown''),
                        stop_reason = reason,
                        input_tokens = js_or (js_opt (js_get d ''usage'') ''prompt_tokens'') (JNum 0),
                        output_tokens =
                          js_or (js_opt (js_get d ''usage'') ''completion_tokens'') (JNum 0)\<rparr>))"

definition handleNonStreamingResponse :: "string \<Rightarrow> http_response \<Rightarrow> error + anthropic_message" where
  "handleNonStreamingResponse messageId response =
     (case json_body response of
        None \<Rightarrow> Inl (SyntaxError ''Unexpected token in JSON'')
      | Some d \<Rightarrow> convertOpenRouterResponseToAnthropic messageId d)"

definition handleStreamingResponse ::
  "(string \<Rightarrow> jsval option) \<Rightarrow> string \<Rightarrow> http_response
     \<Rightarrow> error + (sse_event list \<times> error option)" where
  "handleStreamingResponse parse messageId response =
     (case stream_body response of
        None \<Rightarrow> Inl (Error ''Response body is null'')
      | Some (chunks, ending) \<Rightarrow>
          Inr (transformOpenRouterToAnthropic parse messageId chunks ending))"

section \<open>The middleware\<close>

text \<open>
  \<^verbatim>\<open>handle\<close> answers through the reply object and calls the provider through the
  forwarder. Its result here: whether it handled the request, the calls on the reply in
  order, and the calls of \<^verbatim>\<open>fetch\<close> made. An exception that leaves \<^verbatim>\<open>handle\<close> is
  \<open>Inl\<close>. Logging is left out.
\<close>

datatype reply_payload =
    ErrorEnvelope string jsval
  | EventStream "sse_event list \<times> error option"
  | MessageBody anthropic_message

datatype reply_call =
    ReplyStatus nat
  | ReplySend reply_payload
  | ReplyHeader string string

record handle_result =
  handled :: bool
  reply :: "reply_call list"
  fetched :: "fetch_call list"

text \<open>\<^verbatim>\<open>code || fallback\<close> on an optional status code.\<close>

fun code_or :: "nat option \<Rightarrow> nat \<Rightarrow> nat" where
  "code_or None fallback = fallback"
| "code_or (Some n) fallback = (if n = 0 then fallback else n)"

fun message_of :: "string option \<Rightarrow> jsval" where
  "message_of None = JUndefined"
| "message_of (Some s) = JStr s"

definition handle ::
  "(string \<Rightarrow> jsval option) \<Rightarrow> (jsval \<Rightarrow> string) \<Rightarrow> string \<Rightarrow> (fetch_call \<Rightarrow> fetch_outcome)
     \<Rightarrow> AugmentConfig \<Rightarrow> AugmentRequest \<Rightarrow> error + handle_result" where
  "handle parse stringify messageId fetch cfg req =
     (if \<not> enabled cfg then Inr \<lparr>handled = False, reply = [], fetched = []\<rparr>
      else
        (case isClaudeCodeRequest cfg req of
           Inl e \<Rightarrow> Inl e
         | Inr detected \<Rightarrow>
             (if \<not> detected then Inr \<lparr>handled = False, reply = [], fetched = []\<rparr>
              else
                (case augmentRequest stringify cfg req of
                   Inl e \<Rightarrow> Inl e
                 | Inr out \<Rightarrow>
                     (if \<not> success (result out)
                      then Inr \<lparr>handled = True,
                                reply = [ReplyStatus (code_or (errorCode (result out)) 400),
                                         ReplySend (ErrorEnvelope ''invalid_request_error''
                                                      (message_of (error (result out))))],
                                fetched = []\<rparr>
                      else
                        (let isStreaming = (stream (body req) \<noteq> Some False);
                             forwardResult = forward fetch cfg (augmentedBody out) isStreaming;
                             calls = [fetch_request cfg (augmentedBody out)]
                         in if \<not> fwd_success forwardResult
                            then Inr \<lparr>handled = True,
                                      reply = [ReplyStatus (code_or (fwd_errorCode forwardResult) 500),
                                               ReplySend (ErrorEnvelope
                                                 (if fwd_errorCode forwardResult = Some 502
                                                  then ''api_error'' else ''invalid_request_error'')
                                                 (fwd_error forwardResult))],
                                      fetched = calls\<rparr>
                            else
                              (case fwd_response forwardResult of
                                 None \<Rightarrow> Inr \<lparr>handled = True, reply = [], fetched = calls\<rparr>
                               | Some response \<Rightarrow>
                                   (if isStreaming
                                    then (case handleStreamingResponse parse messageId response of
                                            Inl e \<Rightarrow> Inl e
                                          | Inr events \<Rightarrow>
                                              Inr \<lparr>handled = True,
                                                   reply = [ReplyHeader ''Content-Type'' ''text/event-stream'',
                                                            ReplyHeader ''Cache-Control'' ''no-cache'',
                                                            ReplyHeader ''Connection'' ''keep-alive'',
                                                            ReplySend (EventStream events)],
                                                   fetched = calls\<rparr>)
                                    else (case handleNonStreamingResponse messageId response of
                                            Inl e \<Rightarrow> Inl e
                                          | Inr m \<Rightarrow>
                                              Inr \<lparr>handled = True,
                                                   reply = [ReplySend (MessageBody m)],
                                                   fetched = calls\<rparr>)))))))))"

section \<open>Notions used in the properties\<close>

subsection \<open>The transcoder, frame by frame\<close>

definition run_frames :: "string \<Rightarrow> transcoder \<Rightarrow> jsval list \<Rightarrow> transcoder" where
  "run_frames messageId st fs = foldl (\<lambda>s f. process_frame messageId f s) st fs"

fun final_buffer :: "string \<Rightarrow> string list \<Rightarrow> string" where
  "final_buffer buf [] = buf"
| "final_buffer buf (c # cs) = final_buffer (last (split_on newline (buf @ c))) cs"

text \<open>The token counts after a frame, from the counts before it.\<close>

definition new_input :: "jsval \<Rightarrow> jsval \<Rightarrow> jsval" where
  "new_input inp chunk =
     (if truthy (js_get chunk ''usage'')
      then js_or (js_get (js_get chunk ''usage'') ''prompt_tokens'') inp else inp)"

definition new_output :: "jsval \<Rightarrow> jsval \<Rightarrow> jsval" where
  "new_output out chunk =
     (if truthy (js_get chunk ''usage'')
      then js_or (js_get (js_get chunk ''usage'') ''completion_tokens'') out else out)"

text \<open>
  The order of the caller's protocol: one \<^verbatim>\<open>message_start\<close>, one
  \<^verbatim>\<open>content_block_start\<close> of index 0, any number of \<^verbatim>\<open>content_block_delta\<close>, then one
  \<^verbatim>\<open>content_block_stop\<close>, one \<^verbatim>\<open>message_delta\<close> and one \<^verbatim>\<open>message_stop\<close>, and nothing else.
\<close>

fun closing_ok :: "sse_event list \<Rightarrow> bool" where
  "closing_ok (ContentBlockDelta i t # es) = closing_ok es"
| "closing_ok [ContentBlockStop i, MessageDelta r n, MessageStop] = True"
| "closing_ok es = False"

fun anthropic_order :: "sse_event list \<Rightarrow> bool" where
  "anthropic_order (MessageStart i m # ContentBlockStart k # es) = (k = 0 \<and> closing_ok es)"
| "anthropic_order es = False"

text \<open>
  The events of a frame once the stream has started, from the output count before it:
  its delta if it carries text, then its closing events if it signals a finish reason.
  And those of a run of frames.
\<close>

definition frame_events :: "jsval \<Rightarrow> jsval \<Rightarrow> sse_event list" where
  "frame_events out f =
     (if truthy (frame_text f) then [ContentBlockDelta 0 (frame_text f)] else [])
     @ (if truthy (frame_finish f)
        then ContentBlockStop 0 #
               (case mapFinishReason (frame_finish f) of
                  Inl e \<Rightarrow> []
                | Inr r \<Rightarrow> [MessageDelta r (new_output out f), MessageStop])
        else [])"

fun body_events :: "jsval \<Rightarrow> jsval list \<Rightarrow> sse_event list" where
  "body_events out [] = []"
| "body_events out (f # fs) = frame_events out f @ body_events (new_output out f) fs"

text \<open>
  A stream closes once and in order: one frame signals a finish reason, one that
  \<^verbatim>\<open>mapFinishReason\<close> maps; no frame before it signals one; no frame after it signals
  one or carries text.
\<close>

fun quiet_frame :: "jsval \<Rightarrow> bool" where
  "quiet_frame f = (if truthy (frame_text f) then False else if truthy (frame_finish f) then False else True)"

fun closes_once :: "jsval list \<Rightarrow> bool" where
  "closes_once [] = False"
| "closes_once (f # fs) =
     (if truthy (frame_finish f)
      then (case mapFinishReason (frame_finish f) of
              Inl e \<Rightarrow> False
            | Inr r \<Rightarrow> list_all quiet_frame fs)
      else closes_once fs)"

subsection \<open>Requests of the data model\<close>

text \<open>
  An inbound request as the interfaces declare it. A content is a string, or a sequence
  of blocks none of which is \<^verbatim>\<open>null\<close> (and, for an inline image, with a media type and
  a payload that convert to strings), or any other value that converts to a string.
  The tools are not \<^verbatim>\<open>null\<close>. The system is absent or an array of segments, none
  \<^verbatim>\<open>null\<close>, whose text, for a segment of type \<^verbatim>\<open>text\<close>, is a string if it is there.
\<close>

definition converts :: "jsval \<Rightarrow> bool" where
  "converts v = (case js_String v of Inl e \<Rightarrow> False | Inr s \<Rightarrow> True)"

definition block_ok :: "jsval \<Rightarrow> bool" where
  "block_ok block =
     (if nullish block then False
      else if js_get block ''type'' = JStr ''image''
              \<and> js_opt (js_get block ''source'') ''type'' = JStr ''base64''
      then converts (js_get (js_get block ''source'') ''media_type'')
           \<and> converts (js_get (js_get block ''source'') ''data'')
      else True)"

definition content_ok :: "jsval \<Rightarrow> bool" where
  "content_ok c =
     (case c of
        JStr s \<Rightarrow> True
      | JArr blocks \<Rightarrow> list_all block_ok blocks
      | _ \<Rightarrow> converts c)"

definition message_ok :: "MessageParam \<Rightarrow> bool" where
  "message_ok msg = (if role msg = ''system'' then True else content_ok (content msg))"

definition segment_ok :: "jsval \<Rightarrow> bool" where
  "segment_ok item =
     (if nullish item then False
      else if js_get item ''type'' = JStr ''text'' \<and> truthy (js_get item ''text'')
      then js_typeof (js_get item ''text'') = ''string''
      else True)"

definition system_ok :: "jsval \<Rightarrow> bool" where
  "system_ok s =
     (case s of
        JUndefined \<Rightarrow> True
      | JArr items \<Rightarrow> list_all segment_ok items
      | _ \<Rightarrow> False)"

definition request_ok :: "AugmentRequest \<Rightarrow> bool" where
  "request_ok req =
     (system_ok (system (body req))
      \<and> list_all message_ok (messages (body req))
      \<and> (case tools (body req) of
            None \<Rightarrow> True
          | Some ts \<Rightarrow> list_all (\<lambda>tool. \<not> nullish tool) ts))"

text \<open>The inbound system text: the non-empty texts of the segments of type \<^verbatim>\<open>text\<close>.\<close>

definition segment_text :: "jsval \<Rightarrow> string list" where
  "segment_text item =
     (if js_get item ''type'' = JStr ''text''
      then (case js_get item ''text'' of JStr t \<Rightarrow> (if t \<noteq> [] then [t] else []) | _ \<Rightarrow> [])
      else [])"

definition inbound_system_texts :: "jsval \<Rightarrow> string list" where
  "inbound_system_texts s =
     (case s of JArr items \<Rightarrow> concat (map segment_text items) | _ \<Rightarrow> [])"

subsection \<open>Example data\<close>

text \<open>
  The frames of a provider stream: a text delta, the frame with the finish reason and
  its usage, and a closing frame that carries usage alone. The parser of the examples
  knows the texts of these frames, and of a frame whose completion count is zero.
\<close>

definition text_hi :: string where
  \<open>text_hi = ''{"model":"m1","choices":[{"delta":{"content":"Hi"}}]}''\<close>

definition frame_hi :: jsval where
  "frame_hi =
     JObj [(''model'', JStr ''m1''),
           (''choices'', JArr [JObj [(''delta'', JObj [(''content'', JStr ''Hi'')])]])]"

definition text_stop :: string where
  \<open>text_stop = ''{"choices":[{"delta":{},"finish_reason":"stop"}],"usage":{"prompt_tokens":3,"completion_tokens":5}}''\<close>

definition frame_stop :: jsval where
  "frame_stop =
     JObj [(''choices'', JArr [JObj [(''delta'', JObj []), (''finish_reason'', JStr ''stop'')]]),
           (''usage'', JObj [(''prompt_tokens'', JNum 3), (''completion_tokens'', JNum 5)])]"

definition text_usage :: string where
  \<open>text_usage = ''{"choices":[],"usage":{"prompt_tokens":3,"completion_tokens":7}}''\<close>

definition frame_usage :: jsval where
  "frame_usage =
     JObj [(''choices'', JArr []),
           (''usage'', JObj [(''prompt_tokens'', JNum 3), (''completion_tokens'', JNum 7)])]"

definition text_zero :: string where
  \<open>text_zero = ''{"usage":{"prompt_tokens":0,"completion_tokens":0}}''\<close>

definition frame_zero :: jsval where
  "frame_zero = JObj [(''usage'', JObj [(''prompt_tokens'', JNum 0), (''completion_tokens'', JNum 0)])]"

definition example_parse :: "string \<Rightarrow> jsval option" where
  "example_parse =
     map_of [(text_hi, frame_hi), (text_stop, frame_stop), (text_usage, frame_usage),
             (text_zero, frame_zero)]"

definition data_line :: "string \<Rightarrow> string" where
  "data_line t = ''data: '' @ t @ [newline, newline]"

text \<open>
  A stream of the three frames in two chunks, the second frame cut in the middle of its
  line; and a stream that reports a later count after the finish reason.
\<close>

definition example_chunks :: "string list" where
  "example_chunks =
     [data_line text_hi @ ''data: '' @ take 20 text_stop,
      drop 20 text_stop @ [newline, newline] @ data_line text_usage @ data_line ''[DONE]'']"

definition late_usage_chunks :: "string list" where
  "late_usage_chunks = [data_line text_stop, data_line text_usage @ data_line ''[DONE]'']"

definition zero_usage_chunks :: "string list" where
  "zero_usage_chunks = [data_line text_usage @ data_line text_zero]"

text \<open>A configuration and a request in the style of the repository's tests.\<close>

definition example_detection :: detection_spec where
  "example_detection =
     \<lparr>header_field = Some ''x-agent'', header_value = Some ''claude-code'',
      metadata_field = Some ''agent'', metadata_value = Some ''claude-code''\<rparr>"

definition example_config :: AugmentConfig where
  "example_config =
     \<lparr>enabled = True,
      modified_system_prompt = Some ''You are an augmented assistant.'',
      additional_instructions = JArr [JStr ''Always be concise.'', JStr ''Use code examples when helpful.''],
      extra_context = JObj [(''project'', JStr ''my-app'')],
      openrouter_endpoint = ''https://openrouter.ai/api/v1/chat/completions'',
      openrouter_auth = ''test-auth'',
      detection = example_detection\<rparr>"

definition example_body :: RequestBody where
  "example_body =
     \<lparr>model = ''claude-3-sonnet'',
      messages = [\<lparr>role = ''user'', content = JStr ''Hello, how are you?''\<rparr>],
      system = JArr [JObj [(''type'', JStr ''text''), (''text'', JStr ''You are a helpful assistant.'')]],
      tools = None,
      stream = Some False,
      max_tokens = Some 1024,
      metadata = JUndefined,
      other_fields = [(''temperature'', JNum 1)]\<rparr>"

definition example_request :: AugmentRequest where
  "example_request = \<lparr>body = example_body, headers = [(''X-Agent'', ''claude-code'')]\<rparr>"

text \<open>
  A detection rule on the metadata path \<^verbatim>\<open>constructor\<close> with no expected value, and a
  request whose metadata has the one key \<^verbatim>\<open>user_id\<close>.
\<close>

definition inherited_detection :: detection_spec where
  "inherited_detection =
     \<lparr>header_field = None, header_value = None,
      metadata_field = Some ''constructor'', metadata_value = None\<rparr>"

definition plain_metadata_request :: AugmentRequest where
  "plain_metadata_request =
     \<lparr>body = example_body\<lparr>metadata := JObj [(''user_id'', JStr ''u1'')]\<rparr>, headers = []\<rparr>"

text \<open>Content blocks: a text, an inline image, an image by file reference, an image with no source.\<close>

definition text_block :: jsval where
  "text_block = JObj [(''type'', JStr ''text''), (''text'', JStr ''What is in this image?'')]"

definition inline_image_block :: jsval where
  "inline_image_block =
     JObj [(''type'', JStr ''image''),
           (''source'', JObj [(''type'', JStr ''base64''), (''media_type'', JStr ''image/png''),
                              (''data'', JStr ''iVBORw0KGgo'')])]"

definition file_image_block :: jsval where
  "file_image_block =
     JObj [(''type'', JStr ''image''),
           (''source'', JObj [(''type'', JStr ''file''), (''file_id'', JStr ''file_1'')])]"

definition bare_image_block :: jsval where
  "bare_image_block = JObj [(''type'', JStr ''image'')]"

definition thinking_block :: jsval where
  "thinking_block = JObj [(''type'', JStr ''thinking''), (''thinking'', JStr ''hm'')]"

text \<open>\<^verbatim>\<open>JSON.stringify(_, null, 2)\<close> on the context of the example configuration.\<close>

definition example_stringify :: "jsval \<Rightarrow> string" where
  \<open>example_stringify v =
     (if v = JObj [(''project'', JStr ''my-app'')]
      then ''{'' @ [newline] @ ''  "project": "my-app"'' @ [newline] @ ''}''
      else ''null'')\<close>

text \<open>
  A configuration with no prompt, no instructions and no context; a request with no
  system segments; a configuration with an empty token; a configuration whose
  instructions are the empty string and whose context is the number 0.
\<close>

definition bare_config :: AugmentConfig where
  "bare_config =
     example_config\<lparr>modified_system_prompt := None, additional_instructions := JUndefined,
                    extra_context := JUndefined\<rparr>"

definition bare_request :: AugmentRequest where
  "bare_request = example_request\<lparr>body := example_body\<lparr>system := JUndefined\<rparr>\<rparr>"

definition no_auth_config :: AugmentConfig where
  "no_auth_config = example_config\<lparr>openrouter_auth := []\<rparr>"

definition falsy_fields_config :: AugmentConfig where
  "falsy_fields_config =
     example_config\<lparr>additional_instructions := JStr [], extra_context := JNum 0\<rparr>"

text \<open>Two transports that fail: a refused connection, and an aborted request.\<close>

definition refused_fetch :: "fetch_call \<Rightarrow> fetch_outcome" where
  "refused_fetch call =
     Rejected \<lparr>exn_name = ''Error'', exn_code = Some ''ECONNREFUSED'',
               exn_message = ''Connection refused''\<rparr>"

definition aborted_fetch :: "fetch_call \<Rightarrow> fetch_outcome" where
  "aborted_fetch call =
     Rejected \<lparr>exn_name = ''AbortError'', exn_code = None,
               exn_message = ''This operation was aborted''\<rparr>"

section \<open>Properties of the finish-reason mapping\<close>

lemma mapFinishReason_table:
  "mapFinishReason (JStr ''stop'') = Inr (Data (JStr ''end_turn''))"
  "mapFinishReason (JStr ''length'') = Inr (Data (JStr ''max_tokens''))"
  "mapFinishReason (JStr ''tool_calls'') = Inr (Data (JStr ''tool_use''))"
  "mapFinishReason (JStr ''function_call'') = Inr (Data (JStr ''tool_use''))"
  "mapFinishReason (JStr ''content_filter'') = Inr (Data (JStr ''stop_sequence''))"
  "mapFinishReason JUndefined = Inr (Data (JStr ''end_turn''))"
  "mapFinishReason JNull = Inr (Data (JStr ''end_turn''))"
  by (simp_all add: mapFinishReason_def finish_reason_mapping_def from_Object_prototype_def
      object_prototype_methods_def)

text \<open>
  The fallback holds for every code that is neither in the table nor the name of a
  member of \<^verbatim>\<open>Object.prototype\<close>.
\<close>

lemma mapFinishReason_fallback:
  assumes "code \<notin> {''stop'', ''length'', ''tool_calls'', ''function_call'', ''content_filter''}"
    and "code \<noteq> ''__proto__''" and "code \<noteq> ''constructor''"
    and "code \<notin> set object_prototype_methods"
  shows "mapFinishReason (JStr code) = Inr (Data (JStr ''end_turn''))"
  using assms
  by (simp add: mapFinishReason_def finish_reason_mapping_def from_Object_prototype_def)

text \<open>
  C6. The claim holds on the table and for an absent code, and \<^verbatim>\<open>mapFinishReason\<close>
  does not fail on a string. It does not hold for every other code: the table is a
  plain object, so for the code \<^verbatim>\<open>constructor\<close> the read \<^verbatim>\<open>mapping[reason]\<close> finds the
  function that every object inherits under that name; a function is truthy, the
  fallback \<^verbatim>\<open>|| 'end_turn'\<close> is not taken, and the function itself is returned.
\<close>

theorem mapFinishReason_inherited_name:
  "mapFinishReason (JStr ''constructor'') = Inr (NativeFunction ''Object'')"
  by (simp add: mapFinishReason_def finish_reason_mapping_def from_Object_prototype_def)

section \<open>Properties of the streaming transcoder\<close>

subsection \<open>The events are those of the frames\<close>

lemma sendEvent_buffer: "sendEvent e (st\<lparr>buffer := b\<rparr>) = (sendEvent e st)\<lparr>buffer := b\<rparr>"
  by (simp add: sendEvent_def)

lemma start_events_buffer:
  "start_events mid f (st\<lparr>buffer := b\<rparr>) = (start_events mid f st)\<lparr>buffer := b\<rparr>"
  by (simp add: start_events_def sendEvent_def)

lemma delta_event_buffer:
  "delta_event f (st\<lparr>buffer := b\<rparr>) = (delta_event f st)\<lparr>buffer := b\<rparr>"
  by (simp add: delta_event_def sendEvent_def Let_def)

lemma update_usage_buffer:
  "update_usage f (st\<lparr>buffer := b\<rparr>) = (update_usage f st)\<lparr>buffer := b\<rparr>"
  by (simp add: update_usage_def)

lemma finish_events_buffer:
  "finish_events f (st\<lparr>buffer := b\<rparr>) = (finish_events f st)\<lparr>buffer := b\<rparr>"
  by (simp add: finish_events_def sendEvent_def Let_def split: sum.splits)

lemma process_frame_buffer:
  "process_frame mid f (st\<lparr>buffer := b\<rparr>) = (process_frame mid f st)\<lparr>buffer := b\<rparr>"
  by (simp add: process_frame_def start_events_buffer delta_event_buffer update_usage_buffer
      finish_events_buffer)

lemma run_frames_buffer:
  "run_frames mid (st\<lparr>buffer := b\<rparr>) fs = (run_frames mid st fs)\<lparr>buffer := b\<rparr>"
  by (induction fs arbitrary: st) (simp_all add: run_frames_def process_frame_buffer)

lemma run_frames_append:
  "run_frames mid st (fs @ gs) = run_frames mid (run_frames mid st fs) gs"
  by (simp add: run_frames_def)

lemma process_line_frame:
  "process_line parse mid st l =
     (case line_frame parse l of None \<Rightarrow> st | Some c \<Rightarrow> process_frame mid c st)"
  by (simp add: process_line_def line_frame_def Let_def process_frame_def split: option.splits)

lemma foldl_process_line:
  "foldl (process_line parse mid) st ls = run_frames mid st (List.map_filter (line_frame parse) ls)"
  by (induction ls arbitrary: st)
     (simp_all add: run_frames_def List.map_filter_simps process_line_frame split: option.splits)

lemma map_filter_append_lines:
  "List.map_filter f (xs @ ys) = List.map_filter f xs @ List.map_filter f ys"
  by (simp add: List.map_filter_def)

lemma foldl_process_chunk:
  "foldl (process_chunk parse mid) st chunks =
     (run_frames mid st (List.map_filter (line_frame parse) (stream_lines (buffer st) chunks)))
       \<lparr>buffer := final_buffer (buffer st) chunks\<rparr>"
proof (induction chunks arbitrary: st)
  case Nil
  then show ?case by (simp add: run_frames_def List.map_filter_simps)
next
  case (Cons c cs)
  let ?ls = "split_on newline (buffer st @ c)"
  have step: "process_chunk parse mid st c =
      (run_frames mid st (List.map_filter (line_frame parse) (butlast ?ls)))\<lparr>buffer := last ?ls\<rparr>"
    by (simp add: process_chunk_def Let_def foldl_process_line run_frames_buffer)
  show ?case
    by (simp add: Cons.IH step run_frames_buffer map_filter_append_lines run_frames_append)
qed

lemma transcode_frames:
  "transcode parse mid chunks =
     (run_frames mid initial_transcoder (stream_frames parse chunks))
       \<lparr>buffer := final_buffer [] chunks\<rparr>"
  by (simp add: transcode_def foldl_process_chunk stream_frames_def initial_transcoder_def)

lemma stream_frames_not_nullish: "f \<in> set (stream_frames parse chunks) \<Longrightarrow> \<not> nullish f"
  by (auto simp: stream_frames_def List.map_filter_def line_frame_def split: if_splits option.splits)

subsection \<open>What one frame does\<close>

lemma frame_text_get:
  "truthy (frame_text f) \<Longrightarrow>
   js_get (js_opt (js_opt (js_get f ''choices'') ''0'') ''delta'') ''content'' = frame_text f"
  by (auto simp: frame_text_def js_opt_def split: if_splits)

lemma start_events_fields:
  "emitted (start_events mid f st) =
     emitted st @ (if sentStart st then [] else [MessageStart mid (frame_model f), ContentBlockStart 0])"
  "sentStart (start_events mid f st) = True"
  "outputTokens (start_events mid f st) = outputTokens st"
  "inputTokens (start_events mid f st) = inputTokens st"
  by (simp_all add: start_events_def sendEvent_def frame_model_def)

lemma delta_event_fields:
  "emitted (delta_event f st) =
     emitted st @ (if truthy (frame_text f) then [ContentBlockDelta 0 (frame_text f)] else [])"
  "sentStart (delta_event f st) = sentStart st"
  "outputTokens (delta_event f st) = outputTokens st"
  "inputTokens (delta_event f st) = inputTokens st"
  using frame_text_get [of f]
  by (simp_all add: delta_event_def sendEvent_def Let_def frame_text_def)

lemma update_usage_fields:
  "emitted (update_usage f st) = emitted st"
  "sentStart (update_usage f st) = sentStart st"
  "outputTokens (update_usage f st) = new_output (outputTokens st) f"
  "inputTokens (update_usage f st) = new_input (inputTokens st) f"
  by (simp_all add: update_usage_def new_output_def new_input_def)

lemma finish_events_fields:
  "emitted (finish_events f st) =
     emitted st @
       (if truthy (frame_finish f)
        then ContentBlockStop 0 #
               (case mapFinishReason (frame_finish f) of
                  Inl e \<Rightarrow> []
                | Inr r \<Rightarrow> [MessageDelta r (outputTokens st), MessageStop])
        else [])"
  "sentStart (finish_events f st) = sentStart st"
  "outputTokens (finish_events f st) = outputTokens st"
  "inputTokens (finish_events f st) = inputTokens st"
  by (simp_all add: finish_events_def sendEvent_def Let_def frame_finish_def split: sum.splits)

lemma process_frame_fields:
  assumes "\<not> nullish f"
  shows "emitted (process_frame mid f st) =
     emitted st @ (if sentStart st then [] else [MessageStart mid (frame_model f), ContentBlockStart 0])
       @ (if truthy (frame_text f) then [ContentBlockDelta 0 (frame_text f)] else [])
       @ (if truthy (frame_finish f)
          then ContentBlockStop 0 #
                 (case mapFinishReason (frame_finish f) of
                    Inl e \<Rightarrow> []
                  | Inr r \<Rightarrow> [MessageDelta r (new_output (outputTokens st) f), MessageStop])
          else [])"
    and "sentStart (process_frame mid f st) = True"
    and "outputTokens (process_frame mid f st) = new_output (outputTokens st) f"
    and "inputTokens (process_frame mid f st) = new_input (inputTokens st) f"
  using assms
  by (simp_all add: process_frame_def finish_events_fields update_usage_fields delta_event_fields
      start_events_fields split: sum.splits)

lemma process_frame_nullish: "nullish f \<Longrightarrow> process_frame mid f st = st"
  by (simp add: process_frame_def)


subsection \<open>A run of frames\<close>

lemma process_frame_events:
  assumes "\<not> nullish f" and "sentStart st"
  shows "emitted (process_frame mid f st) = emitted st @ frame_events (outputTokens st) f"
  using process_frame_fields(1) [OF assms(1), of mid st] assms(2)
  by (simp add: frame_events_def)

lemma run_frames_body:
  assumes "list_all (\<lambda>g. \<not> nullish g) fs" and "sentStart st"
  shows "emitted (run_frames mid st fs) = emitted st @ body_events (outputTokens st) fs"
  using assms
proof (induction fs arbitrary: st)
  case Nil
  then show ?case by (simp add: run_frames_def)
next
  case (Cons g fs)
  have g: "\<not> nullish g" and rest: "list_all (\<lambda>g. \<not> nullish g) fs"
    using Cons.prems(1) by simp_all
  let ?st = "process_frame mid g st"
  have e: "emitted ?st = emitted st @ frame_events (outputTokens st) g"
    using process_frame_events [OF g Cons.prems(2)] .
  have s: "sentStart ?st" using process_frame_fields(2) [OF g] by simp
  have o: "outputTokens ?st = new_output (outputTokens st) g"
    using process_frame_fields(3) [OF g] by simp
  have run: "run_frames mid st (g # fs) = run_frames mid ?st fs"
    by (simp add: run_frames_def)
  show ?case
    using Cons.IH [OF rest s] by (simp add: run e o)
qed

lemma run_frames_started:
  assumes "fs \<noteq> []" and "\<not> nullish (hd fs)"
  shows "run_frames mid st fs = run_frames mid (start_events mid (hd fs) st) fs"
proof -
  obtain h rest where fs: "fs = h # rest" using assms(1) by (cases fs) auto
  have "start_events mid h (start_events mid h st) = start_events mid h st"
    by (simp add: start_events_def sendEvent_def)
  then have "process_frame mid h (start_events mid h st) = process_frame mid h st"
    using assms(2) by (simp add: process_frame_def fs)
  then show ?thesis by (simp add: fs run_frames_def)
qed

text \<open>
  The events of a stream that the source closes: none when no frame parses, and
  otherwise the two start events, with the model of the first frame, and then the
  events of the frames.
\<close>

lemma closed_stream_events:
  "fst (transformOpenRouterToAnthropic parse mid chunks SourceClosed) =
     (case stream_frames parse chunks of
        [] \<Rightarrow> []
      | f # fs \<Rightarrow>
          MessageStart mid (frame_model f) # ContentBlockStart 0 # body_events (JNum 0) (f # fs))"
proof (cases "stream_frames parse chunks")
  case Nil
  then show ?thesis
    by (simp add: transformOpenRouterToAnthropic_def transcode_frames run_frames_def
        initial_transcoder_def)
next
  case (Cons f fs)
  have nn: "list_all (\<lambda>g. \<not> nullish g) (f # fs)"
    using stream_frames_not_nullish [of _ parse chunks] Cons by (auto simp: list_all_iff)
  let ?st0 = "start_events mid f initial_transcoder"
  have st0: "emitted ?st0 = [MessageStart mid (frame_model f), ContentBlockStart 0]"
    "sentStart ?st0" "outputTokens ?st0 = JNum 0"
    by (simp_all add: start_events_fields initial_transcoder_def)
  have "run_frames mid initial_transcoder (f # fs) = run_frames mid ?st0 (f # fs)"
    using run_frames_started [of "f # fs" mid initial_transcoder] nn by simp
  then have "emitted (run_frames mid initial_transcoder (f # fs)) =
      [MessageStart mid (frame_model f), ContentBlockStart 0] @ body_events (JNum 0) (f # fs)"
    using run_frames_body [OF nn st0(2), of mid] st0(1,3) by simp
  then show ?thesis
    using Cons by (simp add: transformOpenRouterToAnthropic_def transcode_frames)
qed

text \<open>When a read fails, the consumer has a prefix of these events, and the error.\<close>

lemma failed_stream_events:
  "transformOpenRouterToAnthropic parse mid chunks (SourceFailed e taken) =
     (take taken (fst (transformOpenRouterToAnthropic parse mid chunks SourceClosed)), Some e)"
  by (simp add: transformOpenRouterToAnthropic_def)

subsection \<open>The start events, for every stream\<close>

text \<open>
  Whatever the stream that the source closes: either nothing is sent, or the first two
  events are \<^verbatim>\<open>message_start\<close> and \<^verbatim>\<open>content_block_start\<close> of index 0, and neither
  occurs again.
\<close>

lemma frame_events_later:
  "list_all (\<lambda>e. event_name e \<noteq> ''message_start'' \<and> event_name e \<noteq> ''content_block_start'')
     (frame_events out f)"
  by (simp add: frame_events_def split: sum.splits)

lemma body_events_later:
  "list_all (\<lambda>e. event_name e \<noteq> ''message_start'' \<and> event_name e \<noteq> ''content_block_start'')
     (body_events out fs)"
  by (induction fs arbitrary: out) (simp_all add: frame_events_later)

lemma transcoder_start_once:
  "fst (transformOpenRouterToAnthropic parse mid chunks SourceClosed) = []
   \<or> (\<exists>m later.
         fst (transformOpenRouterToAnthropic parse mid chunks SourceClosed)
           = MessageStart mid m # ContentBlockStart 0 # later
         \<and> list_all (\<lambda>e. event_name e \<noteq> ''message_start''
                           \<and> event_name e \<noteq> ''content_block_start'') later)"
  using body_events_later [of "JNum 0" "stream_frames parse chunks"]
  by (cases "stream_frames parse chunks") (simp_all add: closed_stream_events)

subsection \<open>When the events are in the order of the protocol\<close>

lemma closing_ok_deltas:
  "closing_ok (map (ContentBlockDelta i) ts @ es) = closing_ok es"
  by (induction ts) simp_all

lemma closing_ok_closed:
  "closing_ok (ContentBlockStop i # MessageDelta r n # MessageStop # es) \<longleftrightarrow> es = []"
  by (cases es) simp_all

lemma body_events_quiet: "body_events out fs = [] \<longleftrightarrow> list_all quiet_frame fs"
  by (induction fs arbitrary: out) (auto simp: frame_events_def split: sum.splits)

lemma body_events_append:
  "body_events out (fs @ gs) = body_events out fs @ body_events (foldl new_output out fs) gs"
  by (induction fs arbitrary: out) simp_all

lemma body_events_no_finish:
  "list_all (\<lambda>g. \<not> truthy (frame_finish g)) pre \<Longrightarrow>
   body_events out pre = map (ContentBlockDelta 0) (filter truthy (map frame_text pre))"
  by (induction pre arbitrary: out) (simp_all add: frame_events_def)

text \<open>A run of frames never begins with \<^verbatim>\<open>message_delta\<close>.\<close>

lemma body_events_head: "body_events out fs \<noteq> MessageDelta r n # es"
proof (induction fs arbitrary: out)
  case Nil
  show ?case by simp
next
  case (Cons f fs)
  show ?case
    using Cons.IH [of "new_output out f"]
    by (auto simp: frame_events_def split: sum.splits)
qed

lemma closing_ok_stop:
  "closing_ok (ContentBlockStop i # es) \<longleftrightarrow> (\<exists>r n. es = [MessageDelta r n, MessageStop])"
proof (cases es)
  case Nil
  then show ?thesis by simp
next
  case (Cons a as)
  show ?thesis
  proof (cases a)
    case (MessageDelta r n)
    show ?thesis
    proof (cases as)
      case Nil
      then show ?thesis using Cons MessageDelta by simp
    next
      case (Cons b bs)
      then show ?thesis using \<open>es = a # as\<close> MessageDelta by (cases b; cases bs) simp_all
    qed
  qed (simp_all add: Cons)
qed

lemma closing_ok_body: "closing_ok (body_events out fs) \<longleftrightarrow> closes_once fs"
proof (induction fs arbitrary: out)
  case Nil
  show ?case by simp
next
  case (Cons f fs)
  let ?d = "filter truthy [frame_text f]"
  have d: "(if truthy (frame_text f) then [ContentBlockDelta 0 (frame_text f)] else [])
      = map (ContentBlockDelta 0) ?d"
    by simp
  show ?case
  proof (cases "truthy (frame_finish f)")
    case False
    have "body_events out (f # fs) = map (ContentBlockDelta 0) ?d @ body_events (new_output out f) fs"
      using False by (simp add: frame_events_def)
    then have "closing_ok (body_events out (f # fs)) = closing_ok (body_events (new_output out f) fs)"
      by (simp only: closing_ok_deltas)
    then show ?thesis using False Cons.IH by simp
  next
    case True
    show ?thesis
    proof (cases "mapFinishReason (frame_finish f)")
      case (Inl e)
      have "body_events out (f # fs) =
          map (ContentBlockDelta 0) ?d @ ContentBlockStop 0 # body_events (new_output out f) fs"
        using True Inl by (simp add: frame_events_def)
      then have "closing_ok (body_events out (f # fs)) =
          closing_ok (ContentBlockStop 0 # body_events (new_output out f) fs)"
        by (simp only: closing_ok_deltas)
      then show ?thesis
        using True Inl body_events_head [of "new_output out f" fs]
        by (simp add: closing_ok_stop)
    next
      case (Inr r)
      have "body_events out (f # fs) =
          map (ContentBlockDelta 0) ?d
          @ ContentBlockStop 0 # MessageDelta r (new_output out f) # MessageStop
              # body_events (new_output out f) fs"
        using True Inr by (simp add: frame_events_def)
      then have "closing_ok (body_events out (f # fs)) =
          closing_ok (ContentBlockStop 0 # MessageDelta r (new_output out f) # MessageStop
              # body_events (new_output out f) fs)"
        by (simp only: closing_ok_deltas)
      then show ?thesis
        using True Inr by (simp add: closing_ok_closed body_events_quiet)
    qed
  qed
qed

lemma closes_once_split:
  assumes "list_all (\<lambda>g. \<not> truthy (frame_finish g)) pre" and "truthy (frame_finish f)"
    and "mapFinishReason (frame_finish f) = Inr r" and "list_all quiet_frame post"
  shows "closes_once (pre @ f # post)"
  using assms by (induction pre) simp_all

text \<open>
  C1, as amended. For a provider stream that the source closes: a stream in which no
  frame parses produces no event; the events are in the order of the protocol (one
  \<^verbatim>\<open>message_start\<close>, one \<^verbatim>\<open>content_block_start\<close> of index 0, deltas, one
  \<^verbatim>\<open>content_block_stop\<close>, one \<^verbatim>\<open>message_delta\<close>, one \<^verbatim>\<open>message_stop\<close>) exactly when
  the stream closes once: one frame signals a finish reason that \<^verbatim>\<open>mapFinishReason\<close>
  maps, no frame before it signals one, and no frame after it signals one or carries
  text. The events are then: \<^verbatim>\<open>message_start\<close> with the model of the first frame,
  \<^verbatim>\<open>content_block_start\<close>, one \<^verbatim>\<open>content_block_delta\<close> for each frame that carries
  text, in the order of the frames, then \<^verbatim>\<open>content_block_stop\<close>, \<^verbatim>\<open>message_delta\<close> with
  the mapped reason and the output count as of the finishing frame, and
  \<^verbatim>\<open>message_stop\<close>.
\<close>

theorem transcoder_event_order:
  "(stream_frames parse chunks = [] \<longrightarrow>
      fst (transformOpenRouterToAnthropic parse mid chunks SourceClosed) = [])
   \<and> (anthropic_order (fst (transformOpenRouterToAnthropic parse mid chunks SourceClosed))
        \<longleftrightarrow> closes_once (stream_frames parse chunks))
   \<and> (\<forall>pre f post r.
        stream_frames parse chunks = pre @ f # post
        \<and> list_all (\<lambda>g. \<not> truthy (frame_finish g)) pre
        \<and> truthy (frame_finish f)
        \<and> mapFinishReason (frame_finish f) = Inr r
        \<and> list_all quiet_frame post
        \<longrightarrow> closes_once (stream_frames parse chunks)
            \<and> fst (transformOpenRouterToAnthropic parse mid chunks SourceClosed) =
              [MessageStart mid (frame_model (hd (pre @ [f]))), ContentBlockStart 0]
              @ map (ContentBlockDelta 0) (filter truthy (map frame_text (pre @ [f])))
              @ [ContentBlockStop 0,
                 MessageDelta r (foldl new_output (JNum 0) (pre @ [f])),
                 MessageStop])"
proof (intro conjI allI impI)
  assume "stream_frames parse chunks = []"
  then show "fst (transformOpenRouterToAnthropic parse mid chunks SourceClosed) = []"
    by (simp add: closed_stream_events)
next
  show "anthropic_order (fst (transformOpenRouterToAnthropic parse mid chunks SourceClosed))
        \<longleftrightarrow> closes_once (stream_frames parse chunks)"
  proof (cases "stream_frames parse chunks")
    case Nil
    then show ?thesis by (simp add: closed_stream_events)
  next
    case (Cons f fs)
    then show ?thesis
      using closing_ok_body [of "JNum 0" "f # fs"] by (simp add: closed_stream_events)
  qed
next
  fix pre f post r
  assume a: "stream_frames parse chunks = pre @ f # post
        \<and> list_all (\<lambda>g. \<not> truthy (frame_finish g)) pre
        \<and> truthy (frame_finish f)
        \<and> mapFinishReason (frame_finish f) = Inr r
        \<and> list_all quiet_frame post"
  show "closes_once (stream_frames parse chunks)"
    using a closes_once_split [of pre f r post] by simp
  have post: "body_events out post = []" for out
    using a by (simp add: body_events_quiet)
  have body: "body_events (JNum 0) (pre @ f # post) =
      map (ContentBlockDelta 0) (filter truthy (map frame_text (pre @ [f])))
      @ [ContentBlockStop 0, MessageDelta r (foldl new_output (JNum 0) (pre @ [f])), MessageStop]"
    using a post by (simp add: body_events_append body_events_no_finish frame_events_def)
  obtain h rest where h: "pre @ f # post = h # rest" and hd: "hd (pre @ [f]) = h"
    by (cases pre) auto
  show "fst (transformOpenRouterToAnthropic parse mid chunks SourceClosed) =
              [MessageStart mid (frame_model (hd (pre @ [f]))), ContentBlockStart 0]
              @ map (ContentBlockDelta 0) (filter truthy (map frame_text (pre @ [f])))
              @ [ContentBlockStop 0,
                 MessageDelta r (foldl new_output (JNum 0) (pre @ [f])),
                 MessageStop]"
    using a body h hd by (simp add: closed_stream_events)
qed

theorem transcoder_event_order_witness:
  "stream_frames example_parse example_chunks = [frame_hi] @ frame_stop # [frame_usage]
   \<and> closes_once (stream_frames example_parse example_chunks)
   \<and> anthropic_order (fst (transformOpenRouterToAnthropic example_parse ''msg_1'' example_chunks SourceClosed))
   \<and> fst (transformOpenRouterToAnthropic example_parse ''msg_1'' example_chunks SourceClosed) =
       [MessageStart ''msg_1'' (JStr ''m1''), ContentBlockStart 0,
        ContentBlockDelta 0 (JStr ''Hi''), ContentBlockStop 0,
        MessageDelta (Data (JStr ''end_turn'')) (JNum 5), MessageStop]"
proof -
  have frames: "stream_frames example_parse example_chunks = [frame_hi] @ frame_stop # [frame_usage]"
    by code_simp
  have pre: "list_all (\<lambda>g. \<not> truthy (frame_finish g)) [frame_hi]"
    by code_simp
  have fin: "truthy (frame_finish frame_stop)"
    by code_simp
  have reason: "mapFinishReason (frame_finish frame_stop) = Inr (Data (JStr ''end_turn''))"
    by code_simp
  have post: "list_all quiet_frame [frame_usage]"
    by code_simp
  have rhs: "[MessageStart ''msg_1'' (frame_model (hd ([frame_hi] @ [frame_stop]))), ContentBlockStart 0]
      @ map (ContentBlockDelta 0) (filter truthy (map frame_text ([frame_hi] @ [frame_stop])))
      @ [ContentBlockStop 0,
         MessageDelta (Data (JStr ''end_turn'')) (foldl new_output (JNum 0) ([frame_hi] @ [frame_stop])),
         MessageStop] =
      [MessageStart ''msg_1'' (JStr ''m1''), ContentBlockStart 0,
       ContentBlockDelta 0 (JStr ''Hi''), ContentBlockStop 0,
       MessageDelta (Data (JStr ''end_turn'')) (JNum 5), MessageStop]"
    by code_simp
  note inst = transcoder_event_order [of example_parse example_chunks "''msg_1''"]
  have both: "closes_once (stream_frames example_parse example_chunks)
    \<and> fst (transformOpenRouterToAnthropic example_parse ''msg_1'' example_chunks SourceClosed) =
      [MessageStart ''msg_1'' (frame_model (hd ([frame_hi] @ [frame_stop]))), ContentBlockStart 0]
      @ map (ContentBlockDelta 0) (filter truthy (map frame_text ([frame_hi] @ [frame_stop])))
      @ [ContentBlockStop 0,
         MessageDelta (Data (JStr ''end_turn'')) (foldl new_output (JNum 0) ([frame_hi] @ [frame_stop])),
         MessageStop]"
    using inst frames pre fin reason post by blast
  then have ordered: "anthropic_order
      (fst (transformOpenRouterToAnthropic example_parse ''msg_1'' example_chunks SourceClosed))"
    using inst by blast
  have once: "closes_once (stream_frames example_parse example_chunks)"
    using both by (rule conjunct1)
  have events: "fst (transformOpenRouterToAnthropic example_parse ''msg_1'' example_chunks SourceClosed) =
       [MessageStart ''msg_1'' (JStr ''m1''), ContentBlockStart 0,
        ContentBlockDelta 0 (JStr ''Hi''), ContentBlockStop 0,
        MessageDelta (Data (JStr ''end_turn'')) (JNum 5), MessageStop]"
    using conjunct2 [OF both] rhs by (rule trans)
  show ?thesis
    using frames once ordered events by (intro conjI)
qed

text \<open>
  C1 as stated fails: the empty stream produces no event; a stream that ends without a
  finish reason has no closing events; a stream with two frames that signal a finish
  reason closes twice.
\<close>

theorem transcoder_event_order_counterexample:
  "\<not> anthropic_order (fst (transformOpenRouterToAnthropic example_parse ''msg_1'' [] SourceClosed))
   \<and> fst (transformOpenRouterToAnthropic example_parse ''msg_1'' [data_line text_hi] SourceClosed) =
       [MessageStart ''msg_1'' (JStr ''m1''), ContentBlockStart 0, ContentBlockDelta 0 (JStr ''Hi'')]
   \<and> \<not> anthropic_order
         (fst (transformOpenRouterToAnthropic example_parse ''msg_1''
                 [data_line text_stop, data_line text_stop] SourceClosed))"
  by code_simp

text \<open>
  C9, as amended. For every frame: a frame without usage leaves both counters as they
  were; a frame with usage sets each counter to the count it carries when that count is
  truthy (present and not zero); and a \<^verbatim>\<open>message_delta\<close> that the frame sends carries the
  output count as it stands after that frame, whatever later frames report.
\<close>

theorem usage_counters:
  "(\<not> truthy (js_get chunk ''usage'') \<longrightarrow>
      inputTokens (process_frame mid chunk st) = inputTokens st
      \<and> outputTokens (process_frame mid chunk st) = outputTokens st)
   \<and> (truthy (js_get chunk ''usage'') \<and> truthy (js_get (js_get chunk ''usage'') ''prompt_tokens'') \<longrightarrow>
      inputTokens (process_frame mid chunk st) = js_get (js_get chunk ''usage'') ''prompt_tokens'')
   \<and> (truthy (js_get chunk ''usage'') \<and> truthy (js_get (js_get chunk ''usage'') ''completion_tokens'') \<longrightarrow>
      outputTokens (process_frame mid chunk st) = js_get (js_get chunk ''usage'') ''completion_tokens'')
   \<and> (\<forall>sent r n.
        emitted (process_frame mid chunk st) = emitted st @ sent \<and> MessageDelta r n \<in> set sent
        \<longrightarrow> n = outputTokens (process_frame mid chunk st))"
proof (cases "nullish chunk")
  case True
  then have "js_get chunk ''usage'' = JUndefined"
    by (cases chunk) (simp_all add: js_get_def)
  then show ?thesis using True by (simp add: process_frame_nullish)
next
  case False
  note fields = process_frame_fields [OF False, of mid st]
  have delta: "n = outputTokens (process_frame mid chunk st)"
    if "emitted (process_frame mid chunk st) = emitted st @ sent" and "MessageDelta r n \<in> set sent"
    for sent r n
  proof -
    have "sent = (if sentStart st then [] else [MessageStart mid (frame_model chunk), ContentBlockStart 0])
       @ (if truthy (frame_text chunk) then [ContentBlockDelta 0 (frame_text chunk)] else [])
       @ (if truthy (frame_finish chunk)
          then ContentBlockStop 0 #
                 (case mapFinishReason (frame_finish chunk) of
                    Inl e \<Rightarrow> []
                  | Inr r \<Rightarrow> [MessageDelta r (new_output (outputTokens st) chunk), MessageStop])
          else [])"
      using that(1) fields(1) by simp
    then have "n = new_output (outputTokens st) chunk"
      using that(2) by (auto split: if_splits sum.splits)
    then show ?thesis using fields(3) by simp
  qed
  have inp: "\<not> truthy (js_get chunk ''usage'') \<longrightarrow>
      inputTokens (process_frame mid chunk st) = inputTokens st
      \<and> outputTokens (process_frame mid chunk st) = outputTokens st"
    using fields(3,4) by (simp add: new_output_def new_input_def)
  have p: "truthy (js_get chunk ''usage'') \<and> truthy (js_get (js_get chunk ''usage'') ''prompt_tokens'') \<longrightarrow>
      inputTokens (process_frame mid chunk st) = js_get (js_get chunk ''usage'') ''prompt_tokens''"
    using fields(4) by (simp add: new_input_def js_or_def)
  have c: "truthy (js_get chunk ''usage'') \<and> truthy (js_get (js_get chunk ''usage'') ''completion_tokens'') \<longrightarrow>
      outputTokens (process_frame mid chunk st) = js_get (js_get chunk ''usage'') ''completion_tokens''"
    using fields(3) by (simp add: new_output_def js_or_def)
  show ?thesis
    using inp p c delta by blast
qed

theorem usage_counters_witness:
  "truthy (js_get frame_stop ''usage'')
   \<and> inputTokens (process_frame ''msg_1'' frame_stop initial_transcoder) = JNum 3
   \<and> outputTokens (process_frame ''msg_1'' frame_stop initial_transcoder) = JNum 5
   \<and> MessageDelta (Data (JStr ''end_turn'')) (JNum 5)
       \<in> set (emitted (process_frame ''msg_1'' frame_stop initial_transcoder))"
proof -
  have u: "truthy (js_get frame_stop ''usage'')"
    "truthy (js_get (js_get frame_stop ''usage'') ''prompt_tokens'')"
    "truthy (js_get (js_get frame_stop ''usage'') ''completion_tokens'')"
    by code_simp+
  have v: "js_get (js_get frame_stop ''usage'') ''prompt_tokens'' = JNum 3"
    "js_get (js_get frame_stop ''usage'') ''completion_tokens'' = JNum 5"
    by code_simp+
  have e: "MessageDelta (Data (JStr ''end_turn'')) (JNum 5)
       \<in> set (emitted (process_frame ''msg_1'' frame_stop initial_transcoder))"
    by code_simp
  show ?thesis
    using usage_counters [of frame_stop "''msg_1''" initial_transcoder] u v e by simp
qed

text \<open>
  C9 as stated fails twice. The provider may report usage in a frame after the one
  with the finish reason: \<^verbatim>\<open>message_delta\<close> has then been sent with the earlier count
  (5), not the final one (7). And a later count of zero does not overwrite an earlier
  count: after 7 and then 0 the counter is 7.
\<close>

theorem usage_counters_counterexample:
  "MessageDelta (Data (JStr ''end_turn'')) (JNum 5)
     \<in> set (fst (transformOpenRouterToAnthropic example_parse ''msg_1'' late_usage_chunks SourceClosed))
   \<and> outputTokens (transcode example_parse ''msg_1'' late_usage_chunks) = JNum 7
   \<and> stream_frames example_parse zero_usage_chunks = [frame_usage, frame_zero]
   \<and> outputTokens (transcode example_parse ''msg_1'' zero_usage_chunks) = JNum 7"
  by code_simp

section \<open>Properties of the detector\<close>

lemma scan_headers_find:
  "scan_headers name expected hs =
     (case find (\<lambda>(k, v). toLowerCase k = name) hs of
        None \<Rightarrow> False
      | Some (k, v) \<Rightarrow> (if configured expected then Some v = expected else True))"
proof (induction hs)
  case Nil
  show ?case by simp
next
  case (Cons h hs)
  obtain k v where h: "h = (k, v)" by (cases h)
  show ?case
  proof (cases "toLowerCase k = name")
    case True
    then show ?thesis by (simp add: h)
  next
    case False
    then show ?thesis using Cons.IH by (simp add: h)
  qed
qed

lemma checkHeader_find:
  "checkHeader req det \<longleftrightarrow>
     (\<exists>field k v. header_field det = Some field \<and> field \<noteq> []
        \<and> find (\<lambda>(k, v). toLowerCase k = toLowerCase field) (headers req) = Some (k, v)
        \<and> (configured (header_value det) \<longrightarrow> header_value det = Some v))"
  by (auto simp: checkHeader_def scan_headers_find split: option.splits)

text \<open>
  C5. With the policy disabled the detector returns false. With it enabled, it returns
  true exactly when the header criterion or the metadata criterion matches, and false
  exactly when neither does. The header criterion takes the first header whose name
  equals the configured field up to the case of letters; with an expected value
  configured it compares that header's value with it, exactly, and without one the
  presence of the header is enough. With neither field configured the detector returns
  false.
\<close>

theorem detector_rule:
  "(\<not> enabled cfg \<longrightarrow> isClaudeCodeRequest cfg req = Inr False)
   \<and> (enabled cfg \<longrightarrow>
        (isClaudeCodeRequest cfg req = Inr True \<longleftrightarrow>
           checkHeader req (detection cfg) \<or> checkMetadata req (detection cfg) = Inr True))
   \<and> (enabled cfg \<longrightarrow>
        (isClaudeCodeRequest cfg req = Inr False \<longleftrightarrow>
           \<not> checkHeader req (detection cfg) \<and> checkMetadata req (detection cfg) = Inr False))
   \<and> (checkHeader req (detection cfg) \<longleftrightarrow>
        (\<exists>field k v. header_field (detection cfg) = Some field \<and> field \<noteq> []
           \<and> find (\<lambda>(k, v). toLowerCase k = toLowerCase field) (headers req) = Some (k, v)
           \<and> (configured (header_value (detection cfg)) \<longrightarrow> header_value (detection cfg) = Some v)))
   \<and> (\<not> configured (header_field (detection cfg)) \<and> \<not> configured (metadata_field (detection cfg))
        \<longrightarrow> isClaudeCodeRequest cfg req = Inr False)"
proof (intro conjI)
  show "\<not> enabled cfg \<longrightarrow> isClaudeCodeRequest cfg req = Inr False"
    by (simp add: isClaudeCodeRequest_def)
  show "enabled cfg \<longrightarrow>
        (isClaudeCodeRequest cfg req = Inr True \<longleftrightarrow>
           checkHeader req (detection cfg) \<or> checkMetadata req (detection cfg) = Inr True)"
    by (auto simp: isClaudeCodeRequest_def split: sum.splits)
  show "enabled cfg \<longrightarrow>
        (isClaudeCodeRequest cfg req = Inr False \<longleftrightarrow>
           \<not> checkHeader req (detection cfg) \<and> checkMetadata req (detection cfg) = Inr False)"
    by (auto simp: isClaudeCodeRequest_def split: sum.splits)
  show "checkHeader req (detection cfg) \<longleftrightarrow>
        (\<exists>field k v. header_field (detection cfg) = Some field \<and> field \<noteq> []
           \<and> find (\<lambda>(k, v). toLowerCase k = toLowerCase field) (headers req) = Some (k, v)
           \<and> (configured (header_value (detection cfg)) \<longrightarrow> header_value (detection cfg) = Some v))"
    by (rule checkHeader_find)
  have h: "\<not> configured (header_field (detection cfg)) \<Longrightarrow> \<not> checkHeader req (detection cfg)"
    by (cases "header_field (detection cfg)") (simp_all add: checkHeader_def)
  have m: "\<not> configured (metadata_field (detection cfg)) \<Longrightarrow>
      checkMetadata req (detection cfg) = Inr False"
    by (cases "metadata_field (detection cfg)") (simp_all add: checkMetadata_def)
  show "\<not> configured (header_field (detection cfg)) \<and> \<not> configured (metadata_field (detection cfg))
        \<longrightarrow> isClaudeCodeRequest cfg req = Inr False"
    using h m by (simp add: isClaudeCodeRequest_def)
qed

theorem detector_rule_witness:
  "enabled example_config
   \<and> find (\<lambda>(k, v). toLowerCase k = toLowerCase ''x-agent'') (headers example_request)
       = Some (''X-Agent'', ''claude-code'')
   \<and> checkHeader example_request (detection example_config)
   \<and> isClaudeCodeRequest example_config example_request = Inr True"
proof -
  have e: "enabled example_config" by code_simp
  have f: "header_field (detection example_config) = Some ''x-agent''"
    "header_value (detection example_config) = Some ''claude-code''"
    by code_simp+
  have g: "find (\<lambda>(k, v). toLowerCase k = toLowerCase ''x-agent'') (headers example_request)
       = Some (''X-Agent'', ''claude-code'')"
    by code_simp
  have h: "checkHeader example_request (detection example_config)"
    using detector_rule [of example_config example_request] f g by auto
  then have "isClaudeCodeRequest example_config example_request = Inr True"
    using detector_rule [of example_config example_request] e by blast
  then show ?thesis using e g h by simp
qed

subsection \<open>The metadata path\<close>

lemma descend_undefined: "descend (Data JUndefined) keys = Data JUndefined"
  by (cases keys) simp_all

text \<open>Descending into a value that is not an object gives \<^verbatim>\<open>undefined\<close>.\<close>

lemma descend_non_object:
  "prop_typeof current \<noteq> ''object'' \<Longrightarrow> descend current (key # keys) = Data JUndefined"
  by simp

text \<open>
  A key that the object does not have and that names no member of \<^verbatim>\<open>Object.prototype\<close>
  gives \<^verbatim>\<open>undefined\<close>, wherever it stands in the path.
\<close>

lemma descend_absent_key:
  assumes "map_of kvs key = None" and "key \<noteq> ''__proto__''" and "key \<noteq> ''constructor''"
    and "key \<notin> set object_prototype_methods"
  shows "descend (Data (JObj kvs)) (key # keys) = Data JUndefined"
  using assms by (simp add: from_Object_prototype_def descend_undefined)

lemma checkMetadata_undefined:
  assumes "metadata_field det = Some field"
    and "getNestedValue (metadata (body req)) field = Data JUndefined"
  shows "checkMetadata req det = Inr False"
  using assms by (simp add: checkMetadata_def)

text \<open>
  C8. The lookup has no failing step, and gives \<^verbatim>\<open>undefined\<close> for a value that is not
  an object and for a key that is absent from the object and from its prototype. For an
  absent key that names an inherited member it does not: on the metadata
  \<^verbatim>\<open>{"user_id": "u1"}\<close> the path \<^verbatim>\<open>constructor\<close> resolves to the inherited function, and
  the metadata criterion succeeds.
\<close>

theorem getNestedValue_inherited_key:
  "map_of [(''user_id'', JStr ''u1'')] ''constructor'' = None
   \<and> getNestedValue (JObj [(''user_id'', JStr ''u1'')]) ''constructor'' = NativeFunction ''Object''
   \<and> checkMetadata plain_metadata_request inherited_detection = Inr True"
  by code_simp

section \<open>Properties of the augmenter\<close>

subsection \<open>Content blocks\<close>

lemma convertBlocks_append:
  "convertBlocks (xs @ ys) acc =
     (case convertBlocks xs acc of Inl e \<Rightarrow> Inl e | Inr c \<Rightarrow> convertBlocks ys c)"
  by (induction xs arbitrary: acc) (simp_all split: sum.splits)

lemma js_get_nullish: "nullish v \<Longrightarrow> js_get v k = JUndefined"
  by (cases v) (simp_all add: js_get_def)

text \<open>
  C10. An image block whose source type is neither \<^verbatim>\<open>base64\<close> nor \<^verbatim>\<open>url\<close>, an absent
  source included, pushes nothing: the conversion of a sequence with such a block is
  the conversion of the sequence without it. A block of a type that the code does not
  know is pushed as it is.
\<close>

theorem unsupported_image_dropped:
  "(js_get block ''type'' = JStr ''image''
      \<and> js_opt (js_get block ''source'') ''type'' \<noteq> JStr ''base64''
      \<and> js_opt (js_get block ''source'') ''type'' \<noteq> JStr ''url''
    \<longrightarrow> convertBlock block = Inr []
        \<and> convertBlocks (before @ block # after) converted = convertBlocks (before @ after) converted
        \<and> convertContent (JArr (before @ block # after)) = convertContent (JArr (before @ after)))
   \<and> (\<not> nullish block
      \<and> js_get block ''type'' \<noteq> JStr ''text'' \<and> js_get block ''type'' \<noteq> JStr ''image''
      \<and> js_get block ''type'' \<noteq> JStr ''tool_use'' \<and> js_get block ''type'' \<noteq> JStr ''tool_result''
    \<longrightarrow> convertBlock block = Inr [block])"
proof (intro conjI impI)
  assume a: "js_get block ''type'' = JStr ''image''
      \<and> js_opt (js_get block ''source'') ''type'' \<noteq> JStr ''base64''
      \<and> js_opt (js_get block ''source'') ''type'' \<noteq> JStr ''url''"
  then have nn: "\<not> nullish block" using js_get_nullish [of block "''type''"] by auto
  show drop: "convertBlock block = Inr []"
    using a nn by (simp add: convertBlock_def)
  have step: "convertBlocks (before @ block # after) acc = convertBlocks (before @ after) acc" for acc
    by (simp add: convertBlocks_append drop split: sum.splits)
  show "convertBlocks (before @ block # after) converted = convertBlocks (before @ after) converted"
    by (rule step)
  show "convertContent (JArr (before @ block # after)) = convertContent (JArr (before @ after))"
    by (simp add: convertContent_def step)
next
  assume "\<not> nullish block
      \<and> js_get block ''type'' \<noteq> JStr ''text'' \<and> js_get block ''type'' \<noteq> JStr ''image''
      \<and> js_get block ''type'' \<noteq> JStr ''tool_use'' \<and> js_get block ''type'' \<noteq> JStr ''tool_result''"
  then show "convertBlock block = Inr [block]"
    by (simp add: convertBlock_def)
qed

theorem unsupported_image_dropped_witness:
  "js_opt (js_get file_image_block ''source'') ''type'' = JStr ''file''
   \<and> convertBlock file_image_block = Inr []
   \<and> js_get bare_image_block ''source'' = JUndefined
   \<and> convertBlock bare_image_block = Inr []
   \<and> convertContent (JArr ([text_block] @ bare_image_block # [inline_image_block]))
       = convertContent (JArr ([text_block] @ [inline_image_block]))
   \<and> convertBlock thinking_block = Inr [thinking_block]"
proof -
  have f: "js_get file_image_block ''type'' = JStr ''image''"
    "js_opt (js_get file_image_block ''source'') ''type'' = JStr ''file''"
    by code_simp+
  have b: "js_get bare_image_block ''type'' = JStr ''image''"
    "js_get bare_image_block ''source'' = JUndefined"
    "js_opt (js_get bare_image_block ''source'') ''type'' = JUndefined"
    by code_simp+
  have t: "\<not> nullish thinking_block" "js_get thinking_block ''type'' = JStr ''thinking''"
    by code_simp+
  have 1: "convertBlock file_image_block = Inr []"
    using unsupported_image_dropped [of file_image_block "[]" "[]" "[]"] f by simp
  have 2: "convertBlock bare_image_block = Inr []
     \<and> convertContent (JArr ([text_block] @ bare_image_block # [inline_image_block]))
       = convertContent (JArr ([text_block] @ [inline_image_block]))"
    using unsupported_image_dropped [of bare_image_block "[text_block]" "[inline_image_block]" "[]"] b
    by simp
  have 3: "convertBlock thinking_block = Inr [thinking_block]"
    using unsupported_image_dropped [of thinking_block "[]" "[]" "[]"] t by simp
  show ?thesis using f b 1 2 3 by simp
qed

text \<open>A lone block of type \<^verbatim>\<open>text\<close> collapses to its text.\<close>

lemma single_text_block:
  "js_get block ''type'' = JStr ''text'' \<Longrightarrow> convertContent (JArr [block]) = Inr (js_get block ''text'')"
  using js_get_nullish [of block "''type''"]
  by (auto simp: convertContent_def convertBlock_def js_get_def)

text \<open>
  C7. When the conversion of a block sequence gives \<open>converted\<close>, the content is the
  text of its block if it has exactly one block and that block has type \<^verbatim>\<open>text\<close>, and
  the sequence \<open>converted\<close> itself otherwise; a result of two blocks or more is always
  kept as a sequence.
\<close>

theorem convertContent_collapse:
  assumes "convertBlocks blocks [] = Inr converted"
  shows "(length converted = 1 \<and> js_get (hd converted) ''type'' = JStr ''text''
            \<longrightarrow> convertContent (JArr blocks) = Inr (js_get (hd converted) ''text''))
       \<and> (\<not> (length converted = 1 \<and> js_get (hd converted) ''type'' = JStr ''text'')
            \<longrightarrow> convertContent (JArr blocks) = Inr (JArr converted))
       \<and> (2 \<le> length converted \<longrightarrow> convertContent (JArr blocks) = Inr (JArr converted))"
proof -
  have "converted ! 0 = hd converted" if "length converted = 1"
    using that by (cases converted) simp_all
  then show ?thesis
    using assms by (auto simp: convertContent_def)
qed

theorem convertContent_collapse_witness:
  "convertBlocks [text_block] [] = Inr [text_block]
   \<and> convertContent (JArr [text_block]) = Inr (JStr ''What is in this image?'')
   \<and> convertBlocks [text_block, inline_image_block] []
       = Inr [text_block,
              JObj [(''type'', JStr ''image_url''),
                    (''image_url'', JObj [(''url'', JStr ''data:image/png;base64,iVBORw0KGgo'')])]]
   \<and> convertContent (JArr [text_block, inline_image_block])
       = Inr (JArr [text_block,
                    JObj [(''type'', JStr ''image_url''),
                          (''image_url'', JObj [(''url'', JStr ''data:image/png;base64,iVBORw0KGgo'')])]])"
proof -
  let ?img = "JObj [(''type'', JStr ''image_url''),
                    (''image_url'', JObj [(''url'', JStr ''data:image/png;base64,iVBORw0KGgo'')])]"
  have one: "convertBlocks [text_block] [] = Inr [text_block]"
    by code_simp
  have two: "convertBlocks [text_block, inline_image_block] [] = Inr [text_block, ?img]"
    by code_simp
  have t: "js_get (hd [text_block]) ''type'' = JStr ''text''"
    "js_get (hd [text_block]) ''text'' = JStr ''What is in this image?''"
    by code_simp+
  have 1: "convertContent (JArr [text_block]) = Inr (JStr ''What is in this image?'')"
    using convertContent_collapse [OF one] t by simp
  have 2: "convertContent (JArr [text_block, inline_image_block]) = Inr (JArr [text_block, ?img])"
    using convertContent_collapse [OF two] by simp
  show ?thesis using one two 1 2 by simp
qed

subsection \<open>The system text\<close>

lemma js_join_strings: "js_join sep (map JStr ss) = Inr (join_with sep ss)"
proof (induction ss)
  case Nil
  show ?case by simp
next
  case (Cons p ps)
  then show ?case by (cases ps) simp_all
qed

lemma typeof_string: "js_typeof v = ''string'' \<Longrightarrow> \<exists>t. v = JStr t"
  by (cases v) simp_all

lemma collect_parts_replaced:
  "list_all segment_ok items \<Longrightarrow> collect_parts True items parts = Inr parts"
  by (induction items arbitrary: parts) (simp_all add: segment_ok_def split: if_splits)

lemma collect_parts_texts:
  "list_all segment_ok items \<Longrightarrow>
   collect_parts False items parts = Inr (parts @ map JStr (concat (map segment_text items)))"
proof (induction items arbitrary: parts)
  case Nil
  show ?case by simp
next
  case (Cons item items)
  have ok: "segment_ok item" and rest: "list_all segment_ok items"
    using Cons.prems by simp_all
  have nn: "\<not> nullish item" using ok by (simp add: segment_ok_def split: if_splits)
  show ?case
  proof (cases "js_get item ''type'' = JStr ''text'' \<and> truthy (js_get item ''text'')")
    case True
    then obtain t where t: "js_get item ''text'' = JStr t"
      using ok nn typeof_string [of "js_get item ''text''"] by (auto simp: segment_ok_def)
    have "t \<noteq> []" using True t by simp
    then have "segment_text item = [t]" using True t by (simp add: segment_text_def)
    then show ?thesis using True nn t Cons.IH [OF rest] by simp
  next
    case False
    then have "segment_text item = []"
      by (cases "js_get item ''text''") (auto simp: segment_text_def)
    then show ?thesis using False nn Cons.IH [OF rest] by auto
  qed
qed

lemma buildSystemPrompt_replaced:
  assumes "system_ok s" and "modified_system_prompt cfg = Some p" and "p \<noteq> []"
  shows "buildSystemPrompt cfg s = Inr p"
  using assms
  by (cases s) (simp_all add: buildSystemPrompt_def system_ok_def collect_parts_replaced)

lemma buildSystemPrompt_original:
  assumes "system_ok s" and "\<not> configured (modified_system_prompt cfg)"
  shows "buildSystemPrompt cfg s = Inr (join_with [newline, newline] (inbound_system_texts s))"
proof -
  have parts: "(case modified_system_prompt cfg of
                  None \<Rightarrow> []
                | Some p \<Rightarrow> (if p \<noteq> [] then [JStr p] else [])) = []"
    using assms(2) by (cases "modified_system_prompt cfg") simp_all
  show ?thesis
    using assms
    by (cases s)
       (simp_all add: buildSystemPrompt_def parts system_ok_def inbound_system_texts_def
          collect_parts_texts js_join_strings)
qed

subsection \<open>A request of the data model is converted\<close>

lemma convertBlock_ok: "block_ok block \<Longrightarrow> \<exists>pushed. convertBlock block = Inr pushed"
  by (auto simp: block_ok_def convertBlock_def converts_def split: if_splits sum.splits)

lemma convertBlocks_ok:
  "list_all block_ok blocks \<Longrightarrow> \<exists>converted. convertBlocks blocks acc = Inr converted"
proof (induction blocks arbitrary: acc)
  case Nil
  show ?case by simp
next
  case (Cons block blocks)
  obtain pushed where "convertBlock block = Inr pushed"
    using Cons.prems convertBlock_ok by auto
  then show ?case using Cons by simp
qed

lemma converts_String: "converts v \<Longrightarrow> \<exists>s. js_String v = Inr s"
  by (simp add: converts_def split: sum.splits)

lemma convertContent_ok:
  assumes "content_ok c"
  shows "\<exists>r. convertContent c = Inr r"
proof -
  have other: "\<exists>r. convertContent c = Inr r"
    if conv: "converts c"
      and eq: "convertContent c = (case js_String c of Inl e \<Rightarrow> Inl e | Inr s \<Rightarrow> Inr (JStr s))"
  proof -
    obtain s where "js_String c = Inr s" using conv converts_String by blast
    then show ?thesis using eq by simp
  qed
  show ?thesis
  proof (cases c)
    case (JStr s)
    then show ?thesis by (simp add: convertContent_def)
  next
    case (JArr blocks)
    then obtain converted where "convertBlocks blocks [] = Inr converted"
      using assms convertBlocks_ok [of blocks "[]"] by (auto simp: content_ok_def)
    then show ?thesis using JArr by (simp add: convertContent_def)
  next
    case JUndefined
    then show ?thesis using assms other by (simp add: convertContent_def content_ok_def)
  next
    case JNull
    then show ?thesis using assms other by (simp add: convertContent_def content_ok_def)
  next
    case (JBool b)
    then show ?thesis using assms other by (simp add: convertContent_def content_ok_def)
  next
    case (JNum n)
    then show ?thesis using assms other by (simp add: convertContent_def content_ok_def)
  next
    case (JObj kvs)
    then show ?thesis using assms other by (simp add: convertContent_def content_ok_def)
  qed
qed

lemma convertMessages_ok:
  "list_all message_ok msgs \<Longrightarrow> \<exists>converted. convertMessages msgs = Inr converted"
proof (induction msgs)
  case Nil
  show ?case by simp
next
  case (Cons msg msgs)
  obtain rest where rest: "convertMessages msgs = Inr rest"
    using Cons by auto
  show ?case
  proof (cases "role msg = ''system''")
    case True
    then show ?thesis using rest by simp
  next
    case False
    then obtain c where "convertContent (content msg) = Inr c"
      using Cons.prems convertContent_ok [of "content msg"] by (auto simp: message_ok_def)
    then show ?thesis using False rest by simp
  qed
qed

lemma convertTools_ok:
  "list_all (\<lambda>tool. \<not> nullish tool) ts \<Longrightarrow> \<exists>cs. convertTools ts = Inr cs"
proof (induction ts)
  case Nil
  show ?case by simp
next
  case (Cons tool ts)
  obtain cs where "convertTools ts = Inr cs" using Cons by auto
  moreover have "\<exists>c. convertTool tool = Inr c"
    using Cons.prems by (simp add: convertTool_def)
  ultimately show ?case by auto
qed

text \<open>The converted messages are those of the messages that are not of role \<^verbatim>\<open>system\<close>, in their order.\<close>

lemma convertMessages_order:
  "convertMessages msgs = Inr converted \<Longrightarrow>
   list_all2 (\<lambda>m c. role c = role m \<and> convertContent (content m) = Inr (content c))
     (filter (\<lambda>m. role m \<noteq> ''system'') msgs) converted"
proof (induction msgs arbitrary: converted)
  case Nil
  then show ?case by simp
next
  case (Cons m msgs)
  show ?case
  proof (cases "role m = ''system''")
    case True
    then show ?thesis using Cons by simp
  next
    case False
    then obtain c rest where c: "convertContent (content m) = Inr c"
      and rest: "convertMessages msgs = Inr rest"
      and conv: "converted = \<lparr>role = role m, content = c\<rparr> # rest"
      using Cons.prems by (auto split: sum.splits)
    show ?thesis using False c conv Cons.IH [OF rest] by simp
  qed
qed

subsection \<open>The outbound messages\<close>

lemma validateConfig_success:
  "success (validateConfig cfg) \<longleftrightarrow>
     openrouter_endpoint cfg \<noteq> [] \<and> openrouter_auth cfg \<noteq> []
     \<and> \<not> (truthy (additional_instructions cfg) \<and> \<not> isArray (additional_instructions cfg))
     \<and> \<not> (truthy (extra_context cfg) \<and> js_typeof (extra_context cfg) \<noteq> ''object'')"
  by (simp add: validateConfig_def failure_result_def)

text \<open>
  On a valid policy and a request of the data model \<^verbatim>\<open>augmentRequest\<close> returns, with
  the messages in four groups.
\<close>

lemma augmentRequest_returns:
  assumes "success (validateConfig cfg)" and "request_ok req"
  shows "\<exists>out b systemText converted.
      augmentRequest stringify cfg req = Inr out
      \<and> augmentedBody out = Some b
      \<and> success (result out)
      \<and> buildSystemPrompt cfg (system (body req)) = Inr systemText
      \<and> convertMessages (messages (body req)) = Inr converted
      \<and> or_messages b =
          prompt_messages systemText @ instruction_messages cfg
          @ context_messages stringify cfg @ converted"
proof -
  have sys: "system_ok (system (body req))"
    and msgs: "list_all message_ok (messages (body req))"
    and tls: "case tools (body req) of
                None \<Rightarrow> True
              | Some ts \<Rightarrow> list_all (\<lambda>tool. \<not> nullish tool) ts"
    using assms(2) by (simp_all add: request_ok_def)
  obtain systemText where st: "buildSystemPrompt cfg (system (body req)) = Inr systemText"
  proof (cases "configured (modified_system_prompt cfg)")
    case True
    then obtain p where "modified_system_prompt cfg = Some p" "p \<noteq> []"
      by (cases "modified_system_prompt cfg") auto
    then show ?thesis using that buildSystemPrompt_replaced [OF sys] by blast
  next
    case False
    then show ?thesis using that buildSystemPrompt_original [OF sys] by blast
  qed
  obtain converted where cm: "convertMessages (messages (body req)) = Inr converted"
    using convertMessages_ok [OF msgs] by blast
  obtain convertedTools where ct:
    "(case tools (body req) of
        None \<Rightarrow> Inr None
      | Some ts \<Rightarrow>
          (if ts = [] then Inr None
           else (case convertTools ts of Inl e \<Rightarrow> Inl e | Inr cs \<Rightarrow> Inr (Some cs))))
     = Inr convertedTools"
  proof (cases "tools (body req)")
    case None
    then show ?thesis using that by simp
  next
    case (Some ts)
    then obtain cs where "convertTools ts = Inr cs"
      using tls convertTools_ok [of ts] by auto
    then show ?thesis using that Some by (cases "ts = []") simp_all
  qed
  show ?thesis
    using assms(1) st cm ct by (simp add: augmentRequest_def)
qed

text \<open>
  C3. For a valid policy and an inbound request of the data model, \<^verbatim>\<open>augmentRequest\<close>
  returns an outbound message list that is, in order: one system message with the
  system text, if there is any; one system message per configured instruction, in
  order; one system message with the serialized context between the markers, when a
  context is configured; then the converted messages that are not of role \<^verbatim>\<open>system\<close>,
  in their order. The system text is the replacement prompt when one is configured
  (the inbound system content is then discarded), and otherwise the inbound system
  text, its segments joined by blank lines.
\<close>

theorem augmentRequest_messages:
  assumes "success (validateConfig cfg)" and "request_ok req"
  shows "\<exists>out b systemText converted.
      augmentRequest stringify cfg req = Inr out
      \<and> augmentedBody out = Some b
      \<and> success (result out)
      \<and> or_messages b =
          (if systemText = [] then [] else [\<lparr>role = ''system'', content = JStr systemText\<rparr>])
          @ (case additional_instructions cfg of
               JArr instructions \<Rightarrow> map (\<lambda>i. \<lparr>role = ''system'', content = i\<rparr>) instructions
             | _ \<Rightarrow> [])
          @ (if truthy (extra_context cfg)
             then [\<lparr>role = ''system'',
                    content = JStr (''<context>'' @ [newline] @ stringify (extra_context cfg)
                                    @ [newline] @ ''</context>'')\<rparr>]
             else [])
          @ converted
      \<and> list_all2 (\<lambda>m c. role c = role m \<and> convertContent (content m) = Inr (content c))
          (filter (\<lambda>m. role m \<noteq> ''system'') (messages (body req))) converted
      \<and> (\<forall>p. modified_system_prompt cfg = Some p \<and> p \<noteq> [] \<longrightarrow> systemText = p)
      \<and> (\<not> configured (modified_system_prompt cfg)
            \<longrightarrow> systemText =
                join_with [newline, newline] (inbound_system_texts (system (body req))))"
proof -
  obtain out b systemText converted where
    out: "augmentRequest stringify cfg req = Inr out" "augmentedBody out = Some b"
      "success (result out)"
    and st: "buildSystemPrompt cfg (system (body req)) = Inr systemText"
    and cm: "convertMessages (messages (body req)) = Inr converted"
    and msgs: "or_messages b =
          prompt_messages systemText @ instruction_messages cfg
          @ context_messages stringify cfg @ converted"
    using augmentRequest_returns [OF assms] by blast
  have sys: "system_ok (system (body req))"
    using assms(2) by (simp add: request_ok_def)
  have instr: "instruction_messages cfg =
      (case additional_instructions cfg of
         JArr instructions \<Rightarrow> map (\<lambda>i. \<lparr>role = ''system'', content = i\<rparr>) instructions
       | _ \<Rightarrow> [])"
    by (simp add: instruction_messages_def system_message_def split: jsval.splits)
  have m: "or_messages b =
          (if systemText = [] then [] else [\<lparr>role = ''system'', content = JStr systemText\<rparr>])
          @ (case additional_instructions cfg of
               JArr instructions \<Rightarrow> map (\<lambda>i. \<lparr>role = ''system'', content = i\<rparr>) instructions
             | _ \<Rightarrow> [])
          @ (if truthy (extra_context cfg)
             then [\<lparr>role = ''system'',
                    content = JStr (''<context>'' @ [newline] @ stringify (extra_context cfg)
                                    @ [newline] @ ''</context>'')\<rparr>]
             else [])
          @ converted"
    unfolding msgs instr
    by (simp add: prompt_messages_def context_messages_def system_message_def)
  have rep: "\<forall>p. modified_system_prompt cfg = Some p \<and> p \<noteq> [] \<longrightarrow> systemText = p"
    using buildSystemPrompt_replaced [OF sys, of cfg] st by auto
  have orig: "\<not> configured (modified_system_prompt cfg)
            \<longrightarrow> systemText =
                join_with [newline, newline] (inbound_system_texts (system (body req)))"
    using buildSystemPrompt_original [OF sys, of cfg] st by auto
  show ?thesis
    using out m convertMessages_order [OF cm] rep orig by blast
qed

theorem augmentRequest_messages_witness:
  "success (validateConfig example_config)
   \<and> request_ok example_request
   \<and> map_sum id (map_option or_messages \<circ> augmentedBody)
       (augmentRequest example_stringify example_config example_request) =
     Inr (Some
       [\<lparr>role = ''system'', content = JStr ''You are an augmented assistant.''\<rparr>,
        \<lparr>role = ''system'', content = JStr ''Always be concise.''\<rparr>,
        \<lparr>role = ''system'', content = JStr ''Use code examples when helpful.''\<rparr>,
        \<lparr>role = ''system'',
         content = JStr (''<context>'' @ [newline] @ example_stringify (extra_context example_config)
                         @ [newline] @ ''</context>'')\<rparr>,
        \<lparr>role = ''user'', content = JStr ''Hello, how are you?''\<rparr>])"
proof -
  have v: "success (validateConfig example_config)" by code_simp
  have r: "request_ok example_request" by code_simp
  have cfgs: "modified_system_prompt example_config = Some ''You are an augmented assistant.''"
    "additional_instructions example_config =
       JArr [JStr ''Always be concise.'', JStr ''Use code examples when helpful.'']"
    "truthy (extra_context example_config)"
    "filter (\<lambda>m. role m \<noteq> ''system'') (messages (body example_request))
       = [\<lparr>role = ''user'', content = JStr ''Hello, how are you?''\<rparr>]"
    by code_simp+
  obtain out b systemText converted where
    out: "augmentRequest example_stringify example_config example_request = Inr out"
    and b: "augmentedBody out = Some b"
    and m: "or_messages b =
          (if systemText = [] then [] else [\<lparr>role = ''system'', content = JStr systemText\<rparr>])
          @ (case additional_instructions example_config of
               JArr instructions \<Rightarrow> map (\<lambda>i. \<lparr>role = ''system'', content = i\<rparr>) instructions
             | _ \<Rightarrow> [])
          @ (if truthy (extra_context example_config)
             then [\<lparr>role = ''system'',
                    content = JStr (''<context>'' @ [newline]
                                    @ example_stringify (extra_context example_config)
                                    @ [newline] @ ''</context>'')\<rparr>]
             else [])
          @ converted"
    and c: "list_all2 (\<lambda>m c. role c = role m \<and> convertContent (content m) = Inr (content c))
          (filter (\<lambda>m. role m \<noteq> ''system'') (messages (body example_request))) converted"
    and p: "\<forall>p. modified_system_prompt example_config = Some p \<and> p \<noteq> [] \<longrightarrow> systemText = p"
    using augmentRequest_messages [OF v r, of example_stringify] by blast
  have prompt: "systemText = ''You are an augmented assistant.''"
    using p cfgs(1) by simp
  obtain c1 where conv: "converted = [c1]" and c1: "role c1 = ''user''"
    "convertContent (JStr ''Hello, how are you?'') = Inr (content c1)"
    using c unfolding cfgs(4) by (auto simp: list_all2_Cons1)
  have "content c1 = JStr ''Hello, how are you?''"
    using c1(2) by (simp add: convertContent_def)
  then have "c1 = \<lparr>role = ''user'', content = JStr ''Hello, how are you?''\<rparr>"
    using c1(1) by (cases c1) simp
  then show ?thesis
    using v r out b m prompt cfgs(2,3) conv by simp
qed

text \<open>
  With no replacement prompt the inbound system text leads; with neither there is no
  leading system message.
\<close>

lemma augmentRequest_optional_prompt:
  "map_sum id (map_option or_messages \<circ> augmentedBody)
       (augmentRequest example_stringify bare_config example_request) =
     Inr (Some [\<lparr>role = ''system'', content = JStr ''You are a helpful assistant.''\<rparr>,
                \<lparr>role = ''user'', content = JStr ''Hello, how are you?''\<rparr>])"
  "map_sum id (map_option or_messages \<circ> augmentedBody)
       (augmentRequest example_stringify bare_config bare_request) =
     Inr (Some [\<lparr>role = ''user'', content = JStr ''Hello, how are you?''\<rparr>])"
  by code_simp+

subsection \<open>Validation\<close>

text \<open>
  C4, as amended. The validation fails when the endpoint is empty, when the token is
  empty, when the instructions are a truthy value that is not an array, and when the
  context is a truthy value whose type is not \<^verbatim>\<open>object\<close> (a string, a number,
  \<^verbatim>\<open>true\<close>). When it fails, \<^verbatim>\<open>augmentRequest\<close> returns the empty body and the failure,
  whose code is 400 and whose message names the first offending field in that order;
  the middleware, for a detected request, replies 400 with an
  \<^verbatim>\<open>invalid_request_error\<close> envelope of that message; and whatever the request,
  \<^verbatim>\<open>handle\<close> calls no transport under such a policy.
\<close>

theorem invalid_policy_rejected:
  "(openrouter_endpoint cfg = [] \<or> openrouter_auth cfg = []
      \<or> (truthy (additional_instructions cfg) \<and> \<not> isArray (additional_instructions cfg))
      \<or> (truthy (extra_context cfg) \<and> js_typeof (extra_context cfg) \<noteq> ''object'')
    \<longrightarrow> \<not> success (validateConfig cfg))
   \<and> (\<not> success (validateConfig cfg) \<longrightarrow>
        augmentRequest stringify cfg req = Inr \<lparr>augmentedBody = None, result = validateConfig cfg\<rparr>
        \<and> errorCode (validateConfig cfg) = Some 400
        \<and> error (validateConfig cfg) =
            Some (if openrouter_endpoint cfg = []
                  then ''Missing required parameter: openrouter_endpoint''
                  else if openrouter_auth cfg = []
                  then ''Missing required parameter: openrouter_auth''
                  else if truthy (additional_instructions cfg) \<and> \<not> isArray (additional_instructions cfg)
                  then ''Invalid parameter: additional_instructions must be an array''
                  else ''Invalid parameter: extra_context must be an object''))
   \<and> (\<not> success (validateConfig cfg) \<and> isClaudeCodeRequest cfg req = Inr True \<longrightarrow>
        (\<exists>msg. error (validateConfig cfg) = Some msg
           \<and> handle parse stringify messageId fetch cfg req =
               Inr \<lparr>handled = True,
                    reply = [ReplyStatus 400,
                             ReplySend (ErrorEnvelope ''invalid_request_error'' (JStr msg))],
                    fetched = []\<rparr>))
   \<and> (\<forall>r. \<not> success (validateConfig cfg)
           \<and> handle parse stringify messageId fetch cfg req = Inr r
        \<longrightarrow> fetched r = [])"
proof (intro conjI impI allI)
  assume "openrouter_endpoint cfg = [] \<or> openrouter_auth cfg = []
      \<or> (truthy (additional_instructions cfg) \<and> \<not> isArray (additional_instructions cfg))
      \<or> (truthy (extra_context cfg) \<and> js_typeof (extra_context cfg) \<noteq> ''object'')"
  then show "\<not> success (validateConfig cfg)"
    by (simp add: validateConfig_success)
next
  assume f: "\<not> success (validateConfig cfg)"
  show "augmentRequest stringify cfg req = Inr \<lparr>augmentedBody = None, result = validateConfig cfg\<rparr>"
    using f by (simp add: augmentRequest_def)
  show "errorCode (validateConfig cfg) = Some 400"
    using f by (simp add: validateConfig_def failure_result_def split: if_splits)
  show "error (validateConfig cfg) =
            Some (if openrouter_endpoint cfg = []
                  then ''Missing required parameter: openrouter_endpoint''
                  else if openrouter_auth cfg = []
                  then ''Missing required parameter: openrouter_auth''
                  else if truthy (additional_instructions cfg) \<and> \<not> isArray (additional_instructions cfg)
                  then ''Invalid parameter: additional_instructions must be an array''
                  else ''Invalid parameter: extra_context must be an object'')"
    using f by (simp add: validateConfig_def failure_result_def split: if_splits)
next
  assume a: "\<not> success (validateConfig cfg) \<and> isClaudeCodeRequest cfg req = Inr True"
  then have f: "\<not> success (validateConfig cfg)" and d: "isClaudeCodeRequest cfg req = Inr True"
    by simp_all
  have en: "enabled cfg"
    using d by (auto simp: isClaudeCodeRequest_def split: if_splits)
  obtain msg where msg: "error (validateConfig cfg) = Some msg"
    and code: "errorCode (validateConfig cfg) = Some 400"
    using f by (auto simp: validateConfig_def failure_result_def split: if_splits)
  have aug: "augmentRequest stringify cfg req = Inr \<lparr>augmentedBody = None, result = validateConfig cfg\<rparr>"
    using f by (simp add: augmentRequest_def)
  have "handle parse stringify messageId fetch cfg req =
               Inr \<lparr>handled = True,
                    reply = [ReplyStatus 400,
                             ReplySend (ErrorEnvelope ''invalid_request_error'' (JStr msg))],
                    fetched = []\<rparr>"
    using en d aug f msg code by (simp add: handle_def)
  then show "\<exists>msg. error (validateConfig cfg) = Some msg
           \<and> handle parse stringify messageId fetch cfg req =
               Inr \<lparr>handled = True,
                    reply = [ReplyStatus 400,
                             ReplySend (ErrorEnvelope ''invalid_request_error'' (JStr msg))],
                    fetched = []\<rparr>"
    using msg by blast
next
  fix r
  assume a: "\<not> success (validateConfig cfg)
           \<and> handle parse stringify messageId fetch cfg req = Inr r"
  have aug: "augmentRequest stringify cfg req = Inr \<lparr>augmentedBody = None, result = validateConfig cfg\<rparr>"
    using a by (simp add: augmentRequest_def)
  show "fetched r = []"
    using a aug by (auto simp: handle_def split: if_splits sum.splits)
qed

theorem invalid_policy_rejected_witness:
  "openrouter_auth no_auth_config = []
   \<and> \<not> success (validateConfig no_auth_config)
   \<and> isClaudeCodeRequest no_auth_config example_request = Inr True
   \<and> augmentRequest example_stringify no_auth_config example_request =
       Inr \<lparr>augmentedBody = None, result = validateConfig no_auth_config\<rparr>
   \<and> error (validateConfig no_auth_config) = Some ''Missing required parameter: openrouter_auth''
   \<and> handle example_parse example_stringify ''msg_1'' refused_fetch no_auth_config example_request =
       Inr \<lparr>handled = True,
            reply = [ReplyStatus 400,
                     ReplySend (ErrorEnvelope ''invalid_request_error''
                                  (JStr ''Missing required parameter: openrouter_auth''))],
            fetched = []\<rparr>"
proof -
  have a: "openrouter_auth no_auth_config = []" "openrouter_endpoint no_auth_config \<noteq> []"
    by code_simp+
  have d: "isClaudeCodeRequest no_auth_config example_request = Inr True"
    by code_simp
  note inst = invalid_policy_rejected [of no_auth_config example_stringify example_request
      example_parse "''msg_1''" refused_fetch]
  have f: "\<not> success (validateConfig no_auth_config)"
    using inst a by blast
  have e: "error (validateConfig no_auth_config) = Some ''Missing required parameter: openrouter_auth''"
    using inst f a by simp
  show ?thesis
    using inst f d e a by auto
qed

text \<open>
  C4 as stated fails: instructions that are the empty string are not an array, and a
  context that is the number 0 is not an object, yet the validation passes, and for a
  detected request the middleware calls the provider.
\<close>

theorem invalid_policy_rejected_counterexample:
  "\<not> isArray (additional_instructions falsy_fields_config)
   \<and> js_typeof (extra_context falsy_fields_config) = ''number''
   \<and> success (validateConfig falsy_fields_config)
   \<and> isClaudeCodeRequest falsy_fields_config example_request = Inr True
   \<and> map_sum id (\<lambda>r. (reply r, length (fetched r)))
       (handle example_parse example_stringify ''msg_1'' refused_fetch falsy_fields_config
          example_request) =
     Inr ([ReplyStatus 502,
           ReplySend (ErrorEnvelope ''api_error''
             (JStr ''Network error: Unable to reach OpenRouter endpoint - Connection refused''))],
          1)"
  by code_simp


section \<open>Properties of the forwarder and the middleware\<close>

lemma forward_rejected:
  "fetch (fetch_request cfg b) = Rejected e \<Longrightarrow> forward fetch cfg b isStreaming = forward_catch e"
  by (simp add: forward_def)

lemma handle_forward_failure:
  assumes "isClaudeCodeRequest cfg req = Inr True"
    and "augmentRequest stringify cfg req = Inr out"
    and "success (result out)"
    and "\<not> fwd_success (forward fetch cfg (augmentedBody out) (stream (body req) \<noteq> Some False))"
  shows "handle parse stringify messageId fetch cfg req =
     Inr \<lparr>handled = True,
          reply = [ReplyStatus (code_or (fwd_errorCode
                      (forward fetch cfg (augmentedBody out) (stream (body req) \<noteq> Some False))) 500),
                   ReplySend (ErrorEnvelope
                     (if fwd_errorCode (forward fetch cfg (augmentedBody out) (stream (body req) \<noteq> Some False))
                         = Some 502
                      then ''api_error'' else ''invalid_request_error'')
                     (fwd_error (forward fetch cfg (augmentedBody out) (stream (body req) \<noteq> Some False))))],
          fetched = [fetch_request cfg (augmentedBody out)]\<rparr>"
proof -
  have en: "enabled cfg"
    using assms(1) by (auto simp: isClaudeCodeRequest_def split: if_splits)
  show ?thesis
    using en assms by (simp add: handle_def Let_def)
qed

text \<open>
  C2, as amended. When the transport raises an exception whose code is
  \<^verbatim>\<open>ECONNREFUSED\<close>, \<^verbatim>\<open>ENOTFOUND\<close> or \<^verbatim>\<open>ETIMEDOUT\<close>, or whose name is \<^verbatim>\<open>TypeError\<close>,
  \<^verbatim>\<open>forward\<close> returns a failure of code 502 whose message starts with
  \<^verbatim>\<open>Network error\<close>, and the middleware replies 502 with an \<^verbatim>\<open>api_error\<close> envelope.
  For any other exception \<^verbatim>\<open>forward\<close> returns a failure of code 500 with a
  \<^verbatim>\<open>Forward error\<close> message, and the middleware replies 500 with an
  \<^verbatim>\<open>invalid_request_error\<close> envelope.
\<close>

theorem transport_failure_reported:
  assumes "fetch (fetch_request cfg b) = Rejected e"
  shows "(exn_code e = Some ''ECONNREFUSED'' \<or> exn_code e = Some ''ENOTFOUND''
            \<or> exn_code e = Some ''ETIMEDOUT'' \<or> exn_name e = ''TypeError''
          \<longrightarrow> forward fetch cfg b isStreaming =
                \<lparr>fwd_success = False, fwd_response = None,
                 fwd_error = JStr (''Network error: Unable to reach OpenRouter endpoint - '' @ exn_message e),
                 fwd_errorCode = Some 502\<rparr>
              \<and> (isClaudeCodeRequest cfg req = Inr True
                   \<and> augmentRequest stringify cfg req = Inr out
                   \<and> success (result out) \<and> augmentedBody out = b
                 \<longrightarrow> handle parse stringify messageId fetch cfg req =
                       Inr \<lparr>handled = True,
                            reply = [ReplyStatus 502,
                                     ReplySend (ErrorEnvelope ''api_error''
                                       (JStr (''Network error: Unable to reach OpenRouter endpoint - ''
                                              @ exn_message e)))],
                            fetched = [fetch_request cfg b]\<rparr>))
       \<and> (\<not> (exn_code e = Some ''ECONNREFUSED'' \<or> exn_code e = Some ''ENOTFOUND''
               \<or> exn_code e = Some ''ETIMEDOUT'' \<or> exn_name e = ''TypeError'')
          \<longrightarrow> forward fetch cfg b isStreaming =
                \<lparr>fwd_success = False, fwd_response = None,
                 fwd_error = JStr (''Forward error: '' @ exn_message e),
                 fwd_errorCode = Some 500\<rparr>
              \<and> (isClaudeCodeRequest cfg req = Inr True
                   \<and> augmentRequest stringify cfg req = Inr out
                   \<and> success (result out) \<and> augmentedBody out = b
                 \<longrightarrow> handle parse stringify messageId fetch cfg req =
                       Inr \<lparr>handled = True,
                            reply = [ReplyStatus 500,
                                     ReplySend (ErrorEnvelope ''invalid_request_error''
                                       (JStr (''Forward error: '' @ exn_message e)))],
                            fetched = [fetch_request cfg b]\<rparr>))"
proof -
  have fwd: "forward fetch cfg b s = forward_catch e" for s
    using assms by (rule forward_rejected)
  have net: "forward_catch e =
        \<lparr>fwd_success = False, fwd_response = None,
         fwd_error = JStr (''Network error: Unable to reach OpenRouter endpoint - '' @ exn_message e),
         fwd_errorCode = Some 502\<rparr>"
    if "exn_code e = Some ''ECONNREFUSED'' \<or> exn_code e = Some ''ENOTFOUND''
            \<or> exn_code e = Some ''ETIMEDOUT'' \<or> exn_name e = ''TypeError''"
    using that by (simp add: forward_catch_def)
  have other: "forward_catch e =
        \<lparr>fwd_success = False, fwd_response = None,
         fwd_error = JStr (''Forward error: '' @ exn_message e),
         fwd_errorCode = Some 500\<rparr>"
    if "\<not> (exn_code e = Some ''ECONNREFUSED'' \<or> exn_code e = Some ''ENOTFOUND''
            \<or> exn_code e = Some ''ETIMEDOUT'' \<or> exn_name e = ''TypeError'')"
    using that by (simp add: forward_catch_def)
  have h: "handle parse stringify messageId fetch cfg req =
     Inr \<lparr>handled = True,
          reply = [ReplyStatus (code_or (fwd_errorCode (forward_catch e)) 500),
                   ReplySend (ErrorEnvelope
                     (if fwd_errorCode (forward_catch e) = Some 502
                      then ''api_error'' else ''invalid_request_error'')
                     (fwd_error (forward_catch e)))],
          fetched = [fetch_request cfg b]\<rparr>"
    if "isClaudeCodeRequest cfg req = Inr True \<and> augmentRequest stringify cfg req = Inr out
          \<and> success (result out) \<and> augmentedBody out = b"
  proof -
    have nf: "\<not> fwd_success (forward fetch cfg (augmentedBody out) (stream (body req) \<noteq> Some False))"
      using that fwd by (simp add: forward_catch_def)
    show ?thesis
      using handle_forward_failure [OF _ _ _ nf, of stringify parse messageId] that fwd by simp
  qed
  show ?thesis
  proof (cases "exn_code e = Some ''ECONNREFUSED'' \<or> exn_code e = Some ''ENOTFOUND''
            \<or> exn_code e = Some ''ETIMEDOUT'' \<or> exn_name e = ''TypeError''")
    case True
    show ?thesis using True fwd net [OF True] h by simp
  next
    case False
    show ?thesis using False fwd other [OF False] h by simp
  qed
qed

theorem transport_failure_reported_witness:
  "refused_fetch (fetch_request example_config
       (case augmentRequest example_stringify example_config example_request of
          Inr out \<Rightarrow> augmentedBody out | Inl e \<Rightarrow> None))
     = Rejected \<lparr>exn_name = ''Error'', exn_code = Some ''ECONNREFUSED'',
                 exn_message = ''Connection refused''\<rparr>
   \<and> isClaudeCodeRequest example_config example_request = Inr True
   \<and> handle example_parse example_stringify ''msg_1'' refused_fetch example_config example_request =
       Inr \<lparr>handled = True,
            reply = [ReplyStatus 502,
                     ReplySend (ErrorEnvelope ''api_error''
                       (JStr ''Network error: Unable to reach OpenRouter endpoint - Connection refused''))],
            fetched = [fetch_request example_config
                         (case augmentRequest example_stringify example_config example_request of
                            Inr out \<Rightarrow> augmentedBody out | Inl e \<Rightarrow> None)]\<rparr>"
proof -
  let ?e = "\<lparr>exn_name = ''Error'', exn_code = Some ''ECONNREFUSED'',
                 exn_message = ''Connection refused''\<rparr>"
  have v: "success (validateConfig example_config)" and q: "request_ok example_request"
    by code_simp+
  obtain out where out: "augmentRequest example_stringify example_config example_request = Inr out"
    and ok: "success (result out)"
    using augmentRequest_returns [OF v q, of example_stringify] by blast
  have r: "refused_fetch (fetch_request example_config (augmentedBody out)) = Rejected ?e"
    by (simp add: refused_fetch_def)
  have d: "isClaudeCodeRequest example_config example_request = Inr True"
    by code_simp
  have "handle example_parse example_stringify ''msg_1'' refused_fetch example_config example_request =
       Inr \<lparr>handled = True,
            reply = [ReplyStatus 502,
                     ReplySend (ErrorEnvelope ''api_error''
                       (JStr (''Network error: Unable to reach OpenRouter endpoint - '' @ exn_message ?e)))],
            fetched = [fetch_request example_config (augmentedBody out)]\<rparr>"
    using transport_failure_reported [where fetch = refused_fetch and cfg = example_config
        and b = "augmentedBody out" and e = ?e and isStreaming = False and req = example_request
        and stringify = example_stringify and out = out and parse = example_parse
        and messageId = "''msg_1''"] r d out ok
    by simp
  then show ?thesis using r d out by simp
qed

text \<open>
  C2 as stated fails: for an exception with no such code and another name, as the
  abort of the request, \<^verbatim>\<open>forward\<close> returns the code 500 with a \<^verbatim>\<open>Forward error\<close>
  message, and the middleware replies 500 with an \<^verbatim>\<open>invalid_request_error\<close> envelope.
\<close>

theorem transport_failure_reported_counterexample:
  "forward aborted_fetch example_config None False =
     \<lparr>fwd_success = False, fwd_response = None,
      fwd_error = JStr ''Forward error: This operation was aborted'',
      fwd_errorCode = Some 500\<rparr>
   \<and> map_sum id reply
       (handle example_parse example_stringify ''msg_1'' aborted_fetch example_config example_request) =
     Inr [ReplyStatus 500,
          ReplySend (ErrorEnvelope ''invalid_request_error''
                       (JStr ''Forward error: This operation was aborted''))]"
  by code_simp

end
